theory Spec2Isabelle
  imports Complex_Main "HOL-Library.AList"
begin

section \<open>Python values\<close>

text \<open>
  The option values of pip are dynamically typed: None, booleans, integers, floats,
  strings, and the lists and tuples optparse builds. A float is carried by its
  rational value only (no arithmetic on floats is modelled; only whether it is zero).
\<close>

datatype pyval =
    PNone
  | PBool bool
  | PInt int
  | PFloat rat
  | PStr string
  | PList "pyval list"
  | PTuple "pyval list"

datatype error =
    AttributeError string
  | TypeError
  | ValueError
  | AssertionError
  | UnboundLocalError
  | OptionValueError
  | OptionConflictError
  | BadOptionError
  | IOError
  | OSError
  | FloatArithmetic
  | NotModelled
  | SystemExit int

text \<open>Python truth value testing, as \<^verbatim>\<open>or\<close>, \<^verbatim>\<open>not\<close> and \<^verbatim>\<open>if\<close> use it.\<close>

fun truthy :: "pyval \<Rightarrow> bool" where
  "truthy PNone = False"
| "truthy (PBool b) = b"
| "truthy (PInt i) = (i \<noteq> 0)"
| "truthy (PFloat r) = (r \<noteq> 0)"
| "truthy (PStr s) = (s \<noteq> [])"
| "truthy (PList xs) = (xs \<noteq> [])"
| "truthy (PTuple xs) = (xs \<noteq> [])"

text \<open>
  \<^verbatim>\<open>a + b\<close> on the values that occur here. bool is a subclass of int. A float
  operand is reported as \<open>FloatArithmetic\<close>: its rounding is not modelled.
\<close>

fun py_add :: "pyval \<Rightarrow> pyval \<Rightarrow> error + pyval" where
  "py_add (PInt a) (PInt b) = Inr (PInt (a + b))"
| "py_add (PInt a) (PBool b) = Inr (PInt (a + (if b then 1 else 0)))"
| "py_add (PBool a) (PInt b) = Inr (PInt ((if a then 1 else 0) + b))"
| "py_add (PBool a) (PBool b) = Inr (PInt ((if a then 1 else 0) + (if b then 1 else 0)))"
| "py_add (PStr a) (PStr b) = Inr (PStr (a @ b))"
| "py_add (PList a) (PList b) = Inr (PList (a @ b))"
| "py_add (PTuple a) (PTuple b) = Inr (PTuple (a @ b))"
| "py_add (PFloat a) (PFloat b) = Inl FloatArithmetic"
| "py_add (PFloat a) (PInt b) = Inl FloatArithmetic"
| "py_add (PFloat a) (PBool b) = Inl FloatArithmetic"
| "py_add (PInt a) (PFloat b) = Inl FloatArithmetic"
| "py_add (PBool a) (PFloat b) = Inl FloatArithmetic"
| "py_add _ _ = Inl TypeError"

text \<open>
  An \<^verbatim>\<open>optparse.Values\<close> object: attribute name to value. Reading a missing
  attribute raises AttributeError.
\<close>

type_synonym pyvalues = "string \<rightharpoonup> pyval"

definition getattr :: "pyvalues \<Rightarrow> string \<Rightarrow> error + pyval" where
  "getattr vs a = (case vs a of None \<Rightarrow> Inl (AttributeError a) | Some v \<Rightarrow> Inr v)"

definition setattr :: "pyvalues \<Rightarrow> string \<Rightarrow> pyval \<Rightarrow> pyvalues" where
  "setattr vs a v = vs(a \<mapsto> v)"

section \<open>basecommand.py: Command.merge\_options\<close>

definition carry_over :: "string list" where
  "carry_over = [''log'', ''proxy'', ''require_venv'',
                 ''log_explicit_levels'', ''log_file'',
                 ''timeout'', ''default_vcs'', ''skip_requirements_regex'',
                 ''no_input'']"

text \<open>
  The loop \<^verbatim>\<open>for attr in (...): val = getattr(initial_options, attr) or
  getattr(options, attr); setattr(options, attr, val)\<close>. The right operand of
  \<^verbatim>\<open>or\<close> is read only when the left one is falsy.
\<close>

fun merge_attrs :: "string list \<Rightarrow> pyvalues \<Rightarrow> pyvalues \<Rightarrow> error + pyvalues" where
  "merge_attrs [] initial_options options = Inr options"
| "merge_attrs (attr # rest) initial_options options =
     (case getattr initial_options attr of
        Inl e \<Rightarrow> Inl e
      | Inr x \<Rightarrow>
          if truthy x then merge_attrs rest initial_options (setattr options attr x)
          else (case getattr options attr of
                  Inl e \<Rightarrow> Inl e
                | Inr y \<Rightarrow> merge_attrs rest initial_options (setattr options attr y)))"

text \<open>\<^verbatim>\<open>options.a += initial_options.a\<close>\<close>

definition add_from :: "string \<Rightarrow> pyvalues \<Rightarrow> pyvalues \<Rightarrow> error + pyvalues" where
  "add_from a initial_options options =
     (case getattr options a of
        Inl e \<Rightarrow> Inl e
      | Inr x \<Rightarrow>
          (case getattr initial_options a of
             Inl e \<Rightarrow> Inl e
           | Inr y \<Rightarrow>
               (case py_add x y of
                  Inl e \<Rightarrow> Inl e
                | Inr s \<Rightarrow> Inr (setattr options a s))))"

definition merge_options :: "pyvalues \<Rightarrow> pyvalues \<Rightarrow> error + pyvalues" where
  "merge_options initial_options options =
     (case merge_attrs carry_over initial_options options of
        Inl e \<Rightarrow> Inl e
      | Inr o1 \<Rightarrow>
          (case add_from ''quiet'' initial_options o1 of
             Inl e \<Rightarrow> Inl e
           | Inr o2 \<Rightarrow> add_from ''verbose'' initial_options o2))"

text \<open>\<^verbatim>\<open>x or y\<close> on values.\<close>

definition py_or :: "pyval \<Rightarrow> pyval \<Rightarrow> pyval" where
  "py_or x y = (if truthy x then x else y)"

text \<open>
  The values the global parser of \<^verbatim>\<open>create_main_parser\<close> gives when nothing is
  set: its declared defaults (an option declared without default has None).
  \<open>default_log_file\<close> (pip.locations) is a parameter.
\<close>

definition main_defaults :: "string \<Rightarrow> pyvalues" where
  "main_defaults default_log_file =
     [''help'' \<mapsto> PNone, ''version'' \<mapsto> PNone,
      ''verbose'' \<mapsto> PInt 0, ''quiet'' \<mapsto> PInt 0,
      ''log'' \<mapsto> PNone, ''proxy'' \<mapsto> PStr '''',
      ''timeout'' \<mapsto> PInt 15,
      ''log_explicit_levels'' \<mapsto> PBool False,
      ''require_venv'' \<mapsto> PBool False,
      ''log_file'' \<mapsto> PStr default_log_file,
      ''no_input'' \<mapsto> PBool False,
      ''default_vcs'' \<mapsto> PStr '''',
      ''skip_requirements_regex'' \<mapsto> PStr '''']"

text \<open>
  Two invocations used below. \<open>opts_plain\<close>: nothing given anywhere
  (\<^verbatim>\<open>pip install\<close>); \<open>opts_cmd_timeout\<close>: the command scope after
  \<^verbatim>\<open>pip install --timeout 30\<close>.
\<close>

definition opts_plain :: pyvalues where
  "opts_plain = main_defaults ''pip.log''"

definition opts_cmd_timeout :: pyvalues where
  "opts_cmd_timeout = (main_defaults ''pip.log'')(''timeout'' \<mapsto> PFloat 30)"

section \<open>basecommand.py: the world Command.main acts on\<close>

text \<open>
  What \<^verbatim>\<open>main\<close> touches outside its arguments: the file system, the logger and
  its in-memory sink, and the process environment. \<open>trace\<close> keeps the order of the
  logger calls and the file operations.
\<close>

datatype level = DEBUG | INFO | NOTIFY | WARN | ERROR_LEVEL | FATAL

datatype fmode = ModeA | ModeW

datatype event =
    Logged level string
  | Consumers int
  | ExplicitLevels
  | MadeDirs string
  | Opened string fmode
  | Wrote string string
  | Closed string
  | SetDefaultTimeout pyval
  | UrlopenSetup pyval bool

record world =
  files :: "string \<rightharpoonup> string"
  dirs :: "string set"
  trace :: "event list"
  complete_log :: "string list"
  log_fp :: "string option"

text \<open>
  The parameters of a run: \<^verbatim>\<open>os.environ\<close>, \<^verbatim>\<open>sys.argv[0]\<close>, the text
  \<^verbatim>\<open>time.strftime('%c')\<close> gives, \<^verbatim>\<open>os.path.expanduser\<close> and
  \<^verbatim>\<open>os.path.abspath\<close>, \<^verbatim>\<open>str()\<close> on values that are not strings, and the
  four constants of pip.status\_codes (not among the sources).
\<close>

record ctx =
  environ :: "(string \<times> string) list"
  argv0 :: string
  strftime_c :: string
  expanduser :: "string \<Rightarrow> string"
  abspath :: "string \<Rightarrow> string"
  str_other :: "pyval \<Rightarrow> string"
  SUCCESS :: int
  ERROR :: int
  UNKNOWN_ERROR :: int
  VIRTUALENV_NOT_FOUND :: int

fun py_str :: "ctx \<Rightarrow> pyval \<Rightarrow> string" where
  "py_str c (PStr s) = s"
| "py_str c v = str_other c v"

text \<open>
  Modelled from the spec: pip.log.logger is not among the sources. Every message
  reaches the always-on in-memory debug sink (\<^verbatim>\<open>complete_log.append\<close>) and, when
  the user's log file is open, that file, one line per message; the console sink
  shows the messages at or above its level, FATAL in every case.
\<close>

definition append_file :: "string \<Rightarrow> string \<Rightarrow> (string \<rightharpoonup> string) \<Rightarrow> (string \<rightharpoonup> string)" where
  "append_file p t fs = fs(p \<mapsto> (case fs p of None \<Rightarrow> [] | Some old \<Rightarrow> old) @ t)"

definition logger_log :: "level \<Rightarrow> string \<Rightarrow> world \<Rightarrow> world" where
  "logger_log lvl msg w =
     w\<lparr> trace := trace w @ [Logged lvl msg],
        complete_log := complete_log w @ [msg],
        files := (case log_fp w of
                    None \<Rightarrow> files w
                  | Some p \<Rightarrow> append_file p (msg @ [CHR 0x0A]) (files w)) \<rparr>"

subsection \<open>os.path and the file operations\<close>

definition path_exists :: "world \<Rightarrow> string \<Rightarrow> bool" where
  "path_exists w p = (p \<in> dirs w \<or> files w p \<noteq> None)"

text \<open>\<^verbatim>\<open>posixpath.dirname\<close>: up to the last slash, trailing slashes stripped
  unless the head is slashes only.\<close>

definition rstrip_slash :: "string \<Rightarrow> string" where
  "rstrip_slash s = rev (dropWhile (\<lambda>c. c = CHR ''/'') (rev s))"

definition dirname :: "string \<Rightarrow> string" where
  "dirname p =
     (let head = rev (dropWhile (\<lambda>c. c \<noteq> CHR ''/'') (rev p))
      in if head \<noteq> [] \<and> \<not> list_all (\<lambda>c. c = CHR ''/'') head
         then rstrip_slash head else head)"

text \<open>The directories \<^verbatim>\<open>os.makedirs\<close> walks through: every prefix of the path
  that ends before a separator, and the path itself.\<close>

fun ancestors_from :: "string \<Rightarrow> string \<Rightarrow> string list" where
  "ancestors_from pre [] = (if pre = [] then [] else [pre])"
| "ancestors_from pre (c # cs) =
     (if c = CHR ''/'' \<and> pre \<noteq> [] \<and> last pre \<noteq> CHR ''/'' then [pre] else [])
     @ ancestors_from (pre @ [c]) cs"

definition makedirs :: "string \<Rightarrow> world \<Rightarrow> error + world" where
  "makedirs d w =
     (if list_ex (\<lambda>a. files w a \<noteq> None) (ancestors_from [] d) then Inl OSError
      else Inr (w\<lparr> dirs := dirs w \<union> set (ancestors_from [] d),
                   trace := trace w @ [MadeDirs d] \<rparr>))"

text \<open>\<^verbatim>\<open>open(filename, mode)\<close>: 'w' creates or truncates, 'a' creates or keeps.\<close>

definition py_open :: "string \<Rightarrow> fmode \<Rightarrow> world \<Rightarrow> error + world" where
  "py_open p m w =
     (if p \<in> dirs w \<or> \<not> path_exists w (dirname p) then Inl IOError
      else Inr (w\<lparr> files := (case m of
                               ModeW \<Rightarrow> (files w)(p \<mapsto> [])
                             | ModeA \<Rightarrow> (case files w p of
                                           None \<Rightarrow> (files w)(p \<mapsto> [])
                                         | Some old \<Rightarrow> files w)),
                   trace := trace w @ [Opened p m] \<rparr>))"

definition fp_write :: "string \<Rightarrow> string \<Rightarrow> world \<Rightarrow> world" where
  "fp_write p t w =
     w\<lparr> files := append_file p t (files w), trace := trace w @ [Wrote p t] \<rparr>"

definition fp_close :: "string \<Rightarrow> world \<Rightarrow> world" where
  "fp_close p w = w\<lparr> trace := trace w @ [Closed p] \<rparr>"

subsection \<open>open\_logfile\<close>

definition separator :: string where
  "separator = replicate 60 (CHR ''-'') @ [CHR 0x0A]"

definition banner :: "ctx \<Rightarrow> string" where
  "banner c = argv0 c @ '' run on '' @ strftime_c c @ [CHR 0x0A]"

text \<open>Returns the path the handle writes to. A file name that is not a string
  makes \<^verbatim>\<open>os.path.expanduser\<close> raise.\<close>

definition open_logfile :: "ctx \<Rightarrow> pyval \<Rightarrow> fmode \<Rightarrow> world \<Rightarrow> (error + string) \<times> world" where
  "open_logfile c fname m w =
     (case fname of
        PStr f \<Rightarrow>
          (let filename = abspath c (expanduser c f);
               dname = dirname filename
           in case (if \<not> path_exists w dname then makedirs dname w else Inr w) of
                Inl e \<Rightarrow> (Inl e, w)
              | Inr w1 \<Rightarrow>
                  (let existed = path_exists w1 filename
                   in case py_open filename m w1 of
                        Inl e \<Rightarrow> (Inl e, w1)
                      | Inr w2 \<Rightarrow>
                          (Inr filename,
                           if existed
                           then fp_write filename (banner c) (fp_write filename separator w2)
                           else w2)))
      | _ \<Rightarrow> (Inl TypeError, w))"

section \<open>basecommand.py: Command.main\<close>

text \<open>
  The command body \<^verbatim>\<open>self.run(options, args)\<close> is a black box: it changes the
  world and either returns a value or raises. What it raises is known by the class
  the \<^verbatim>\<open>except\<close> clauses of \<^verbatim>\<open>main\<close> test, in their order (an exception of a
  subclass counts as its base class); \<open>OtherException\<close> is everything the bare
  \<^verbatim>\<open>except:\<close> catches. A raised exception carries \<^verbatim>\<open>str(e)\<close> and the text
  of \<^verbatim>\<open>format_exc()\<close>.
\<close>

datatype raised =
    InstallationError
  | UninstallationError
  | BadCommand
  | CommandError
  | KeyboardInterrupt
  | OtherException

datatype run_result = Returned pyval | Raised raised string string

type_synonym command_body = "pyvalues \<Rightarrow> string list \<Rightarrow> world \<Rightarrow> run_result \<times> world"

definition as_int :: "pyval \<Rightarrow> int option" where
  "as_int v = (case v of PInt i \<Rightarrow> Some i | PBool b \<Rightarrow> Some (if b then 1 else 0) | _ \<Rightarrow> None)"

text \<open>The argument of \<^verbatim>\<open>logger.level_for_integer\<close>: \<^verbatim>\<open>4 - (1 + verbose - quiet)\<close>.
  Counters that are not integers are reported as TypeError.\<close>

definition console_level :: "pyvalues \<Rightarrow> error + int" where
  "console_level opts =
     (case getattr opts ''verbose'' of
        Inl e \<Rightarrow> Inl e
      | Inr v \<Rightarrow>
          (case getattr opts ''quiet'' of
             Inl e \<Rightarrow> Inl e
           | Inr q \<Rightarrow>
               (case (as_int v, as_int q) of
                  (Some vi, Some qi) \<Rightarrow> Inr (4 - (1 + vi - qi))
                | _ \<Rightarrow> Inl TypeError)))"

text \<open>Lines 101-105: the required virtualenv. \<^verbatim>\<open>sys.exit\<close> raises SystemExit.\<close>

definition virtual_env_active :: "ctx \<Rightarrow> bool" where
  "virtual_env_active c =
     (case map_of (environ c) ''VIRTUAL_ENV'' of None \<Rightarrow> False | Some v \<Rightarrow> v \<noteq> [])"

definition venv_message :: string where
  "venv_message = ''Could not find an activated virtualenv (required).''"

definition precondition_check :: "ctx \<Rightarrow> pyvalues \<Rightarrow> world \<Rightarrow> (error + unit) \<times> world" where
  "precondition_check c opts w =
     (case getattr opts ''require_venv'' of
        Inl e \<Rightarrow> (Inl e, w)
      | Inr rv \<Rightarrow>
          if truthy rv then
            (if \<not> virtual_env_active c
             then (Inl (SystemExit (VIRTUALENV_NOT_FOUND c)), logger_log FATAL venv_message w)
             else (Inr (), w))
          else (Inr (), w))"

text \<open>Lines 107-111: the user's log file, opened for appending.\<close>

definition open_user_log :: "ctx \<Rightarrow> pyvalues \<Rightarrow> world \<Rightarrow> (error + string option) \<times> world" where
  "open_user_log c opts w =
     (case getattr opts ''log'' of
        Inl e \<Rightarrow> (Inl e, w)
      | Inr l \<Rightarrow>
          if truthy l then
            (case open_logfile c l ModeA w of
               (Inl e, w1) \<Rightarrow> (Inl e, w1)
             | (Inr fp, w1) \<Rightarrow> (Inr (Some fp), w1\<lparr> log_fp := Some fp \<rparr>))
          else (Inr None, w))"

text \<open>Lines 113-115.\<close>

definition network_setup :: "pyvalues \<Rightarrow> world \<Rightarrow> (error + unit) \<times> world" where
  "network_setup opts w =
     (case getattr opts ''timeout'' of
        Inl e \<Rightarrow> (Inl e, w)
      | Inr t \<Rightarrow>
          (let w1 = w\<lparr> trace := trace w @ [SetDefaultTimeout (py_or t PNone)] \<rparr>
           in case getattr opts ''proxy'' of
                Inl e \<Rightarrow> (Inl e, w1)
              | Inr p \<Rightarrow>
                  (case getattr opts ''no_input'' of
                     Inl e \<Rightarrow> (Inl e, w1)
                   | Inr n \<Rightarrow>
                       (Inr (), w1\<lparr> trace := trace w1 @ [UrlopenSetup p (\<not> truthy n)] \<rparr>))))"

text \<open>Lines 117-150: the exit code and the \<^verbatim>\<open>store_log\<close> flag.
  \<^verbatim>\<open>isinstance(status, int)\<close> holds for integers and booleans.\<close>

definition exc_info :: "string \<Rightarrow> string" where
  "exc_info tb = ''Exception information:'' @ [CHR 0x0A] @ tb"

definition handle_result :: "ctx \<Rightarrow> run_result \<Rightarrow> world \<Rightarrow> (pyval \<times> bool) \<times> world" where
  "handle_result c r w =
     (case r of
        Returned status \<Rightarrow>
          ((if as_int status \<noteq> None then status else PInt (SUCCESS c), False), w)
      | Raised cls msg tb \<Rightarrow>
          (case cls of
             InstallationError \<Rightarrow>
               ((PInt (ERROR c), True), logger_log INFO (exc_info tb) (logger_log FATAL msg w))
           | UninstallationError \<Rightarrow>
               ((PInt (ERROR c), True), logger_log INFO (exc_info tb) (logger_log FATAL msg w))
           | BadCommand \<Rightarrow>
               ((PInt (ERROR c), True), logger_log INFO (exc_info tb) (logger_log FATAL msg w))
           | CommandError \<Rightarrow>
               ((PInt (ERROR c), False),
                logger_log INFO (exc_info tb) (logger_log FATAL (''ERROR: '' @ msg) w))
           | KeyboardInterrupt \<Rightarrow>
               ((PInt (ERROR c), True),
                logger_log INFO (exc_info tb) (logger_log FATAL ''Operation cancelled by user'' w))
           | OtherException \<Rightarrow>
               ((PInt (UNKNOWN_ERROR c), True),
                logger_log FATAL (''Exception:'' @ [CHR 0x0A] @ tb) w)))"

text \<open>Lines 151-152. The logger keeps the sink of the closed file; the model takes
  a closed file to receive nothing more (pip.log is not among the sources).\<close>

definition close_user_log :: "string option \<Rightarrow> world \<Rightarrow> world" where
  "close_user_log fp w =
     (case fp of None \<Rightarrow> w | Some p \<Rightarrow> (fp_close p w)\<lparr> log_fp := None \<rparr>)"

text \<open>\<^verbatim>\<open>'\n'.join(lines)\<close>\<close>

fun join_nl :: "string list \<Rightarrow> string" where
  "join_nl [] = []"
| "join_nl [l] = l"
| "join_nl (l # ls) = l @ [CHR 0x0A] @ join_nl ls"

text \<open>Lines 153-159: the text is taken before the path is reported, the path is
  reported before the file is opened, and the file is opened with mode 'w'.\<close>

definition store_complete_log :: "ctx \<Rightarrow> pyvalues \<Rightarrow> world \<Rightarrow> (error + unit) \<times> world" where
  "store_complete_log c opts w =
     (case getattr opts ''log_file'' of
        Inl e \<Rightarrow> (Inl e, w)
      | Inr log_fn \<Rightarrow>
          (let text = join_nl (complete_log w);
               w1 = logger_log FATAL (''Storing complete log in '' @ py_str c log_fn) w
           in case open_logfile c log_fn ModeW w1 of
                (Inl e, w2) \<Rightarrow> (Inl e, w2)
              | (Inr fp, w2) \<Rightarrow> (Inr (), fp_close fp (fp_write fp text w2))))"

text \<open>Lines 117-160, from the call of the body to the return.\<close>

definition run_and_finish ::
  "ctx \<Rightarrow> command_body \<Rightarrow> pyvalues \<Rightarrow> string list \<Rightarrow> string option \<Rightarrow> world
     \<Rightarrow> (error + pyval) \<times> world" where
  "run_and_finish c run opts args fp w =
     (case run opts args w of
        (r, w1) \<Rightarrow>
          (case handle_result c r w1 of
             ((exit_code, store_log), w2) \<Rightarrow>
               (let w3 = close_user_log fp w2
                in if store_log then
                     (case store_complete_log c opts w3 of
                        (Inl e, w4) \<Rightarrow> (Inl e, w4)
                      | (Inr u, w4) \<Rightarrow> (Inr exit_code, w4))
                   else (Inr exit_code, w3))))"

text \<open>Lines 86-115: everything before the body runs. The sinks of this run are
  registered: the in-memory sink starts empty and no log file is open yet.\<close>

definition register_sinks :: "int \<Rightarrow> pyval \<Rightarrow> world \<Rightarrow> world" where
  "register_sinks lvl el w =
     (let w1 = w\<lparr> trace := trace w @ [Consumers lvl], complete_log := [], log_fp := None \<rparr>
      in if truthy el then w1\<lparr> trace := trace w1 @ [ExplicitLevels] \<rparr> else w1)"

definition prepare ::
  "ctx \<Rightarrow> pyvalues \<Rightarrow> pyvalues \<Rightarrow> world \<Rightarrow> (error + pyvalues \<times> string option) \<times> world" where
  "prepare c initial_options options w =
     (case merge_options initial_options options of
        Inl e \<Rightarrow> (Inl e, w)
      | Inr opts \<Rightarrow>
          (case console_level opts of
             Inl e \<Rightarrow> (Inl e, w)
           | Inr lvl \<Rightarrow>
               (case getattr opts ''log_explicit_levels'' of
                  Inl e \<Rightarrow>
                    (Inl e, w\<lparr> trace := trace w @ [Consumers lvl],
                                 complete_log := [], log_fp := None \<rparr>)
                | Inr el \<Rightarrow>
                    (case precondition_check c opts (register_sinks lvl el w) of
                       (Inl e, w3) \<Rightarrow> (Inl e, w3)
                     | (Inr u, w3) \<Rightarrow>
                         (case open_user_log c opts w3 of
                            (Inl e, w4) \<Rightarrow> (Inl e, w4)
                          | (Inr fp, w4) \<Rightarrow>
                              (case network_setup opts w4 of
                                 (Inl e, w5) \<Rightarrow> (Inl e, w5)
                               | (Inr u, w5) \<Rightarrow> (Inr (opts, fp), w5)))))))"

text \<open>\<^verbatim>\<open>main\<close> after \<^verbatim>\<open>parse_args\<close> has given the command-scope options.\<close>

definition main_from ::
  "ctx \<Rightarrow> command_body \<Rightarrow> pyvalues \<Rightarrow> pyvalues \<Rightarrow> string list \<Rightarrow> world
     \<Rightarrow> (error + pyval) \<times> world" where
  "main_from c run initial_options options args w =
     (case prepare c initial_options options w of
        (Inl e, w1) \<Rightarrow> (Inl e, w1)
      | (Inr (opts, fp), w1) \<Rightarrow> run_and_finish c run opts args fp w1)"



text \<open>A concrete run: status codes 0 to 3, an empty environment, a file system with
  the root directory only.\<close>

definition ctx0 :: ctx where
  "ctx0 = \<lparr> environ = [], argv0 = ''pip'', strftime_c = ''Mon Jan  1 00:00:00 2012'',
            expanduser = (\<lambda>p. p), abspath = (\<lambda>p. p), str_other = (\<lambda>v. ''?''),
            SUCCESS = 0, ERROR = 1, UNKNOWN_ERROR = 2, VIRTUALENV_NOT_FOUND = 3 \<rparr>"

definition world0 :: world where
  "world0 = \<lparr> files = Map.empty, dirs = {''/''}, trace = [], complete_log = [],
              log_fp = None \<rparr>"

definition opts_require_venv :: pyvalues where
  "opts_require_venv = (main_defaults ''/pip.log'')(''require_venv'' \<mapsto> PBool True)"

definition opts_root_log :: pyvalues where
  "opts_root_log = main_defaults ''/pip.log''"

text \<open>Command bodies for the examples: one that returns nothing, one that returns
  the integer 2, and one that logs a line and raises.\<close>

definition body_none :: command_body where
  "body_none opts args w = (Returned PNone, w)"

definition body_two :: command_body where
  "body_two opts args w = (Returned (PInt 2), w)"

definition body_raise :: "raised \<Rightarrow> command_body" where
  "body_raise cls opts args w =
     (Raised cls ''no such package'' ''Traceback'', logger_log NOTIFY ''Downloading'' w)"

definition world_old_log :: world where
  "world_old_log = world0\<lparr> files := [''/pip.log'' \<mapsto> ''earlier run''] \<rparr>"

section \<open>pip/\_\_init\_\_.py: FrozenRequirement\<close>

text \<open>
  A \<^verbatim>\<open>pkg_resources.Requirement\<close> with the attributes used here, and its
  \<^verbatim>\<open>__str__\<close>: the project name, the extras in brackets when there are any, and
  the specifiers joined by commas.
\<close>

record requirement =
  req_project_name :: string
  req_extras :: "string list"
  req_specs :: "(string \<times> string) list"

fun join_comma :: "string list \<Rightarrow> string" where
  "join_comma [] = []"
| "join_comma [l] = l"
| "join_comma (l # ls) = l @ '','' @ join_comma ls"

definition requirement_str :: "requirement \<Rightarrow> string" where
  "requirement_str r =
     req_project_name r
     @ (if req_extras r = [] then [] else ''['' @ join_comma (req_extras r) @ '']'')
     @ join_comma (map (\<lambda>(op, ver). op @ ver) (req_specs r))"

text \<open>An installed distribution: the attributes and the results of the methods
  \<^verbatim>\<open>from_dist\<close> reads (\<^verbatim>\<open>dist.as_requirement()\<close>, \<^verbatim>\<open>dist.egg_name()\<close>).\<close>

record dist =
  location :: string
  project_name :: string
  as_requirement :: requirement
  dist_egg_name :: string

text \<open>
  pip.vcs and os.path as \<^verbatim>\<open>from_dist\<close> calls them:
  \<^verbatim>\<open>os.path.normcase(os.path.abspath(.))\<close>, \<^verbatim>\<open>vcs.get_backend_name\<close>,
  \<^verbatim>\<open>get_src_requirement\<close>, and \<^verbatim>\<open>vcs.get_backend(name)\<close>, which gives None or
  a backend, known here by its \<^verbatim>\<open>get_location\<close>.
\<close>

record vcs_env =
  normcase_abspath :: "string \<Rightarrow> string"
  get_backend_name :: "string \<Rightarrow> string option"
  get_src_requirement :: "dist \<Rightarrow> string \<Rightarrow> bool \<Rightarrow> string option"
  get_backend :: "string \<Rightarrow> (dist \<Rightarrow> string list \<Rightarrow> string option) option"

text \<open>The requirement of a frozen record is a Requirement object or a string.\<close>

datatype req_value = ReqObj requirement | ReqStr string

fun str_req :: "req_value \<Rightarrow> string" where
  "str_req (ReqObj r) = requirement_str r"
| "str_req (ReqStr s) = s"

record frozen_requirement =
  name :: string
  req :: req_value
  editable :: bool
  comments :: "string list"

subsection \<open>The three regular expressions\<close>

text \<open>\<^verbatim>\<open>\d\<close> on byte strings: an ASCII digit.\<close>

definition is_digit :: "char \<Rightarrow> bool" where
  "is_digit c = (c \<in> set ''0123456789'')"

text \<open>\<^verbatim>\<open>$\<close> matches at the end of the string and before a newline that ends it:
  the part of the string a match anchored by \<^verbatim>\<open>$\<close> can end in.\<close>

definition before_eol :: "string \<Rightarrow> string" where
  "before_eol s = (if s \<noteq> [] \<and> last s = CHR 0x0A then butlast s else s)"

text \<open>\<^verbatim>\<open>_rev_re = -r(\d+)$\<close>: the digits at the end, at least one, after
  \<^verbatim>\<open>-r\<close>. The result is group 1 of the match.\<close>

definition rev_re_search :: "string \<Rightarrow> string option" where
  "rev_re_search s =
     (let r = rev (before_eol s);
          ds = takeWhile is_digit r;
          rest = dropWhile is_digit r
      in if ds \<noteq> [] \<and> take 2 rest = ''r-'' then Some (rev ds) else None)"

text \<open>\<^verbatim>\<open>_date_re = -(20\d\d\d\d\d\d)$\<close>\<close>

definition date_re_search :: "string \<Rightarrow> string option" where
  "date_re_search s =
     (let r = rev (before_eol s)
      in if 9 \<le> length r \<and> list_all is_digit (take 6 r) \<and> take 3 (drop 6 r) = ''02-''
         then Some (rev (take 8 r)) else None)"

text \<open>\<^verbatim>\<open>egg_name\<close>: the egg name cut where \<^verbatim>\<open>-py\d\.\d$\<close> matches.\<close>

definition egg_name :: "dist \<Rightarrow> string" where
  "egg_name d =
     (case rev (before_eol (dist_egg_name d)) of
        y # dot # x # cy # cp # cm # rest \<Rightarrow>
          if is_digit y \<and> dot = CHR ''.'' \<and> is_digit x
             \<and> cy = CHR ''y'' \<and> cp = CHR ''p'' \<and> cm = CHR ''-''
          then rev rest else dist_egg_name d
      | _ \<Rightarrow> dist_egg_name d)"

subsection \<open>from\_dist and \_\_str\_\_\<close>

definition str_truthy :: "string option \<Rightarrow> bool" where
  "str_truthy s = (case s of None \<Rightarrow> False | Some v \<Rightarrow> v \<noteq> [])"

definition fixme_comment :: string where
  "fixme_comment = ''## FIXME: could not find svn URL in dependency_links for this package:''"

definition editable_comment :: "requirement \<Rightarrow> string" where
  "editable_comment r =
     ''# Installing as editable to satisfy requirement '' @ requirement_str r @ '':''"

text \<open>
  The \<^verbatim>\<open>logger.warn\<close> calls change no result and are left out. The local
  \<^verbatim>\<open>svn_location\<close> is assigned only under \<^verbatim>\<open>if svn_backend:\<close>; reading it
  unassigned raises UnboundLocalError. A failed \<^verbatim>\<open>assert\<close> raises AssertionError.
\<close>

text \<open>\<^verbatim>\<open>rev = ver_match.group(1)\<close> if the revision pattern matched, else
  \<^verbatim>\<open>'{%s}' % date_match.group(1)\<close>.\<close>

definition revision :: "string option \<Rightarrow> string option \<Rightarrow> error + string" where
  "revision ver_match date_match =
     (case ver_match of
        Some g \<Rightarrow> Inr g
      | None \<Rightarrow>
          (case date_match of
             Some g \<Rightarrow> Inr (''{'' @ g @ ''}'')
           | None \<Rightarrow> Inl (AttributeError ''group'')))"

definition from_dist :: "vcs_env \<Rightarrow> dist \<Rightarrow> string list \<Rightarrow> bool \<Rightarrow> error + frozen_requirement" where
  "from_dist vcs d dependency_links find_tags =
     (let loc = normcase_abspath vcs (location d)
      in if str_truthy (get_backend_name vcs loc) then
           (case get_src_requirement vcs d loc find_tags of
              None \<Rightarrow>
                Inr \<lparr> name = project_name d, req = ReqObj (as_requirement d),
                      editable = False,
                      comments = [''## !! Could not determine repository location''] \<rparr>
            | Some r \<Rightarrow>
                Inr \<lparr> name = project_name d, req = ReqStr r, editable = True,
                      comments = [] \<rparr>)
         else
           (case req_specs (as_requirement d) of
              [(op, version)] \<Rightarrow>
                if op = ''=='' then
                  (let ver_match = rev_re_search version;
                       date_match = date_re_search version
                   in if ver_match \<noteq> None \<or> date_match \<noteq> None then
                        (case get_backend vcs ''svn'' of
                           None \<Rightarrow> Inl UnboundLocalError
                         | Some get_location \<Rightarrow>
                             (case get_location d dependency_links of
                                Some (c # cs) \<Rightarrow>
                                  (case revision ver_match date_match of
                                     Inl e \<Rightarrow> Inl e
                                   | Inr rv \<Rightarrow>
                                       Inr \<lparr> name = project_name d,
                                             req = ReqStr ((c # cs) @ ''@'' @ rv
                                                     @ ''#egg='' @ egg_name d),
                                             editable = True,
                                             comments =
                                               [editable_comment (as_requirement d)] \<rparr>)
                              | _ \<Rightarrow>
                                  Inr \<lparr> name = project_name d,
                                        req = ReqObj (as_requirement d),
                                        editable = False,
                                        comments = [fixme_comment] \<rparr>))
                      else
                        Inr \<lparr> name = project_name d, req = ReqObj (as_requirement d),
                              editable = False, comments = [] \<rparr>)
                else Inl AssertionError
            | _ \<Rightarrow> Inl AssertionError))"

text \<open>\<^verbatim>\<open>__str__\<close>\<close>

definition render :: "frozen_requirement \<Rightarrow> string" where
  "render f =
     join_nl (comments f @ [if editable f then ''-e '' @ str_req (req f) else str_req (req f)])
     @ [CHR 0x0A]"

text \<open>Examples: no VCS backend registered at all; an svn backend that finds
  nothing; one that finds a location. Distributions with a plain version, with a
  revision suffix and with a date suffix.\<close>

definition vcs_none :: vcs_env where
  "vcs_none = \<lparr> normcase_abspath = (\<lambda>p. p), get_backend_name = (\<lambda>l. None),
                get_src_requirement = (\<lambda>d l t. None), get_backend = (\<lambda>n. None) \<rparr>"

definition vcs_svn :: "string option \<Rightarrow> vcs_env" where
  "vcs_svn found = vcs_none\<lparr> get_backend :=
      (\<lambda>n. if n = ''svn'' then Some (\<lambda>d links. found) else None) \<rparr>"

definition dist_of :: "string \<Rightarrow> string \<Rightarrow> dist" where
  "dist_of n v =
     \<lparr> location = ''/site-packages'', project_name = n,
       as_requirement = \<lparr> req_project_name = n, req_extras = [],
                          req_specs = [(''=='', v)] \<rparr>,
       dist_egg_name = n @ ''-'' @ v @ ''-py2.7'' \<rparr>"

section \<open>optparse objects\<close>

text \<open>
  \<^verbatim>\<open>optparse.Option\<close> objects are shared by reference between parsers
  (\<^verbatim>\<open>parser.add_option(option)\<close> stores the object it is given), so they live in a
  store, addressed by their index; parsers and groups hold addresses. The containers
  of a parser (its option list, its groups, its option-string dictionaries and its
  defaults) are created by its constructor and belong to it alone: they are fields
  of the parser value.
\<close>

datatype action = Store | StoreTrue | StoreFalse | Append | Count | OtherAction

datatype opt_type = NoType | TString | TInt | TLong | TFloat | TComplex | TChoice

datatype container_id = ParserC string | GroupC string string

record opt =
  short_opts :: "string list"
  long_opts :: "string list"
  action :: action
  otype :: opt_type
  dest :: "string option"
  nargs :: "nat option"
  default :: "pyval option"
  container :: "container_id option"

type_synonym store = "opt list"

text \<open>The object at an address. The stores built below hold an object at every
  address their parsers mention; where an operation finds none, the model answers
  with TypeError.\<close>

definition obj :: "store \<Rightarrow> nat \<Rightarrow> opt option" where
  "obj st a = (if a < length st then Some (st ! a) else None)"

record parser =
  pname :: string
  option_list :: "nat list"
  option_groups :: "(string \<times> nat list) list"
  short_opt :: "string \<rightharpoonup> nat"
  long_opt :: "string \<rightharpoonup> nat"
  defaults :: "string option \<rightharpoonup> pyval"
  config :: "string \<rightharpoonup> (string \<times> string) list"
  process_default_values :: bool

text \<open>
  What the parsers read from outside: \<^verbatim>\<open>os.environ\<close> and the table
  \<^verbatim>\<open>Option.TYPE_CHECKER\<close> of optparse (the conversions for the types int, long,
  float, complex and choice; it raises OptionValueError for a bad value).
\<close>

record penv =
  os_environ :: "(string \<times> string) list"
  type_checker :: "opt_type \<Rightarrow> pyval \<Rightarrow> error + pyval"

text \<open>\<^verbatim>\<open>Option.check_value\<close>: a type without checker (none, or string) leaves the
  value as it is.\<close>

definition check_value :: "penv \<Rightarrow> opt \<Rightarrow> pyval \<Rightarrow> error + pyval" where
  "check_value e option v =
     (case otype option of
        NoType \<Rightarrow> Inr v
      | TString \<Rightarrow> Inr v
      | t \<Rightarrow> type_checker e t v)"

fun check_all :: "penv \<Rightarrow> opt \<Rightarrow> pyval list \<Rightarrow> error + pyval list" where
  "check_all e option [] = Inr []"
| "check_all e option (v # vs) =
     (case check_value e option v of
        Inl er \<Rightarrow> Inl er
      | Inr x \<Rightarrow> (case check_all e option vs of Inl er \<Rightarrow> Inl er | Inr xs \<Rightarrow> Inr (x # xs)))"

text \<open>\<^verbatim>\<open>Option.convert_value\<close>: with \<^verbatim>\<open>nargs == 1\<close> the value is checked, else
  each of its elements is and a tuple is built (iterating a string gives its
  characters; a value that cannot be iterated raises TypeError).\<close>

definition convert_value :: "penv \<Rightarrow> opt \<Rightarrow> pyval \<Rightarrow> error + pyval" where
  "convert_value e option v =
     (if v = PNone then Inr PNone
      else if nargs option = Some 1 then check_value e option v
      else (case (case v of
                    PList xs \<Rightarrow> Inr xs
                  | PTuple xs \<Rightarrow> Inr xs
                  | PStr s \<Rightarrow> Inr (map (\<lambda>c. PStr [c]) s)
                  | _ \<Rightarrow> Inl TypeError) of
              Inl er \<Rightarrow> Inl er
            | Inr xs \<Rightarrow>
                (case check_all e option xs of
                   Inl er \<Rightarrow> Inl er
                 | Inr ys \<Rightarrow> Inr (PTuple ys))))"

text \<open>\<^verbatim>\<open>OptionContainer.get_option\<close>:
  \<^verbatim>\<open>self._short_opt.get(opt_str) or self._long_opt.get(opt_str)\<close>.\<close>

definition get_option :: "parser \<Rightarrow> string \<Rightarrow> nat option" where
  "get_option p opt_str =
     (case short_opt p opt_str of Some a \<Rightarrow> Some a | None \<Rightarrow> long_opt p opt_str)"

text \<open>\<^verbatim>\<open>OptionParser._get_all_options\<close>\<close>

definition get_all_options :: "parser \<Rightarrow> nat list" where
  "get_all_options p = option_list p @ concat (map snd (option_groups p))"

text \<open>
  \<^verbatim>\<open>OptionContainer.add_option(option)\<close> for an Option object, without the append
  to the option list (the parser's own or the group's, see below): the conflict check
  (the handler is the default, "error"), the back pointer \<^verbatim>\<open>option.container\<close>,
  the two dictionaries and the default. A group shares the dictionaries and the
  defaults of its parser.
\<close>

definition add_strings :: "string list \<Rightarrow> nat \<Rightarrow> (string \<rightharpoonup> nat) \<Rightarrow> (string \<rightharpoonup> nat)" where
  "add_strings strs a m = fold (\<lambda>s d. d(s \<mapsto> a)) strs m"

definition register_option ::
  "container_id \<Rightarrow> nat \<Rightarrow> parser \<Rightarrow> store \<Rightarrow> error + parser \<times> store" where
  "register_option cid a p st =
     (case obj st a of
        None \<Rightarrow> Inl TypeError
      | Some option \<Rightarrow>
          if list_ex (\<lambda>s. short_opt p s \<noteq> None) (short_opts option)
             \<or> list_ex (\<lambda>s. long_opt p s \<noteq> None) (long_opts option)
          then Inl OptionConflictError
          else Inr (p\<lparr> short_opt := add_strings (short_opts option) a (short_opt p),
                       long_opt := add_strings (long_opts option) a (long_opt p),
                       defaults :=
                         (case dest option of
                            None \<Rightarrow> defaults p
                          | Some dn \<Rightarrow>
                              (case default option of
                                 Some dv \<Rightarrow> (defaults p)(Some dn \<mapsto> dv)
                               | None \<Rightarrow>
                                   if defaults p (Some dn) = None
                                   then (defaults p)(Some dn \<mapsto> PNone)
                                   else defaults p)) \<rparr>,
                    st[a := option\<lparr> container := Some cid \<rparr>]))"

definition parser_add_option :: "nat \<Rightarrow> parser \<times> store \<Rightarrow> error + parser \<times> store" where
  "parser_add_option a ps =
     (case register_option (ParserC (pname (fst ps))) a (fst ps) (snd ps) of
        Inl er \<Rightarrow> Inl er
      | Inr (p1, st1) \<Rightarrow> Inr (p1\<lparr> option_list := option_list p1 @ [a] \<rparr>, st1))"

text \<open>A group under construction: its title and option list, with the parser whose
  dictionaries it shares.\<close>

definition group_add_option ::
  "nat \<Rightarrow> (string \<times> nat list) \<times> parser \<times> store
     \<Rightarrow> error + (string \<times> nat list) \<times> parser \<times> store" where
  "group_add_option a gps =
     (case gps of
        ((title, olist), p, st) \<Rightarrow>
          (case register_option (GroupC (pname p) title) a p st of
             Inl er \<Rightarrow> Inl er
           | Inr (p1, st1) \<Rightarrow> Inr ((title, olist @ [a]), p1, st1)))"

definition add_option_group :: "string \<times> nat list \<Rightarrow> parser \<Rightarrow> parser" where
  "add_option_group g p = p\<lparr> option_groups := option_groups p @ [g] \<rparr>"

text \<open>\<^verbatim>\<open>ConfigOptionParser(name=...)\<close> with \<^verbatim>\<open>add_help_option=False\<close>: a parser
  without options. \<open>cfg\<close> is what \<^verbatim>\<open>self.config.read(self.files)\<close> found.\<close>

definition new_parser :: "string \<Rightarrow> (string \<rightharpoonup> (string \<times> string) list) \<Rightarrow> parser" where
  "new_parser nm cfg =
     \<lparr> pname = nm, option_list = [], option_groups = [],
       short_opt = Map.empty, long_opt = Map.empty, defaults = Map.empty,
       config = cfg, process_default_values = True \<rparr>"

section \<open>baseparser.py: ConfigOptionParser\<close>

text \<open>
  A Python dict whose iteration order matters is an association list with distinct
  keys: \<^verbatim>\<open>d[k] = v\<close> is \<open>AList.update\<close> (a present key keeps its place, a new one
  goes to the end), and \<^verbatim>\<open>d.items()\<close> is the list.
\<close>

type_synonym strdict = "(string \<times> string) list"

definition dict_update :: "strdict \<Rightarrow> strdict \<Rightarrow> strdict" where
  "dict_update d other = fold (\<lambda>kv acc. AList.update (fst kv) (snd kv) acc) other d"

text \<open>\<^verbatim>\<open>normalize_keys\<close>: underscores become dashes and the key gets the prefix
  \<^verbatim>\<open>--\<close> unless it starts with it.\<close>

definition normalize_key :: "string \<Rightarrow> string" where
  "normalize_key k =
     (let k1 = map (\<lambda>c. if c = CHR ''_'' then CHR ''-'' else c) k
      in if take 2 k1 = ''--'' then k1 else ''--'' @ k1)"

definition normalize_keys :: "strdict \<Rightarrow> strdict" where
  "normalize_keys items =
     fold (\<lambda>kv acc. AList.update (normalize_key (fst kv)) (snd kv) acc) items []"

text \<open>\<^verbatim>\<open>get_config_section\<close>\<close>

definition get_config_section :: "parser \<Rightarrow> string \<Rightarrow> strdict" where
  "get_config_section p nm = (case config p nm of None \<Rightarrow> [] | Some items \<Rightarrow> items)"

text \<open>\<^verbatim>\<open>get_environ_vars\<close>: for the variables that start with \<^verbatim>\<open>PIP_\<close>,
  \<^verbatim>\<open>key.replace('PIP_', '').lower()\<close>; replace removes every occurrence.\<close>

fun remove_prefix_all :: "string \<Rightarrow> string" where
  "remove_prefix_all [] = []"
| "remove_prefix_all (c # cs) =
     (if take 4 (c # cs) = ''PIP_'' then remove_prefix_all (drop 3 cs)
      else c # remove_prefix_all cs)"

definition lower_char :: "char \<Rightarrow> char" where
  "lower_char c =
     (case map_of (zip ''ABCDEFGHIJKLMNOPQRSTUVWXYZ'' ''abcdefghijklmnopqrstuvwxyz'') c of
        None \<Rightarrow> c | Some l \<Rightarrow> l)"

definition lower :: "string \<Rightarrow> string" where
  "lower s = map lower_char s"

definition get_environ_vars :: "penv \<Rightarrow> strdict" where
  "get_environ_vars e =
     map (\<lambda>kv. (lower (remove_prefix_all (fst kv)), snd kv))
       (filter (\<lambda>kv. take 4 (fst kv) = ''PIP_'') (os_environ e))"

text \<open>\<^verbatim>\<open>distutils.util.strtobool\<close>\<close>

definition strtobool :: "string \<Rightarrow> error + pyval" where
  "strtobool val =
     (if lower val \<in> set [''y'', ''yes'', ''t'', ''true'', ''on'', ''1''] then Inr (PInt 1)
      else if lower val \<in> set [''n'', ''no'', ''f'', ''false'', ''off'', ''0'']
      then Inr (PInt 0)
      else Inl ValueError)"

text \<open>\<^verbatim>\<open>val.split()\<close>: the words between runs of whitespace.\<close>

definition is_space :: "char \<Rightarrow> bool" where
  "is_space c = (c \<in> set [CHR '' '', CHR 0x09, CHR 0x0A, CHR 0x0B, CHR 0x0C, CHR 0x0D])"

fun split_ws :: "string \<Rightarrow> string \<Rightarrow> string list" where
  "split_ws w [] = (if w = [] then [] else [w])"
| "split_ws w (c # cs) =
     (if is_space c then (if w = [] then [] else [w]) @ split_ws [] cs
      else split_ws (w @ [c]) cs)"

text \<open>The dict \<^verbatim>\<open>config\<close> of \<^verbatim>\<open>update_defaults\<close>: the section \<^verbatim>\<open>global\<close>, then
  the section of the parser's name, then the environment, each written over the
  one before.\<close>

definition merged_config :: "penv \<Rightarrow> parser \<Rightarrow> strdict" where
  "merged_config e p =
     dict_update
       (dict_update
          (dict_update [] (normalize_keys (get_config_section p ''global'')))
          (normalize_keys (get_config_section p (pname p))))
       (normalize_keys (get_environ_vars e))"

text \<open>\<^verbatim>\<open>try: ... except optparse.OptionValueError: ... sys.exit(n)\<close>: an
  OptionValueError becomes the exit, any other exception passes.\<close>

definition exit_on_value_error :: "int \<Rightarrow> error + 'a \<Rightarrow> error + 'a" where
  "exit_on_value_error n r =
     (case r of
        Inl er \<Rightarrow> if er = OptionValueError then Inl (SystemExit n) else Inl er
      | Inr v \<Rightarrow> Inr v)"

text \<open>
  One round of the loop \<^verbatim>\<open>for key, val in config.items()\<close>. It sets
  \<^verbatim>\<open>option.nargs = 1\<close> on the Option object, in the store. An OptionValueError of
  \<^verbatim>\<open>convert_value\<close> ends the process with \<^verbatim>\<open>sys.exit(3)\<close>; the ValueError of
  \<^verbatim>\<open>strtobool\<close> is not caught.
\<close>

definition apply_item ::
  "penv \<Rightarrow> parser \<Rightarrow> string \<times> string \<Rightarrow> (string option \<rightharpoonup> pyval) \<times> store
     \<Rightarrow> error + (string option \<rightharpoonup> pyval) \<times> store" where
  "apply_item e p kv ds =
     (case get_option p (fst kv) of
        None \<Rightarrow> Inr ds
      | Some a \<Rightarrow>
          (case obj (snd ds) a of
             None \<Rightarrow> Inl TypeError
           | Some option \<Rightarrow>
               if snd kv = [] then Inr ds
               else
                 (let val1 = (if action option = Append
                              then PList (map PStr (split_ws [] (snd kv)))
                              else PStr (snd kv));
                      option1 = (if action option = Append then option
                                 else option\<lparr> nargs := Some 1 \<rparr>);
                      st1 = (snd ds)[a := option1]
                  in case (if action option1 \<in> {StoreTrue, StoreFalse, Count}
                           then strtobool (snd kv) else Inr val1) of
                       Inl er \<Rightarrow> Inl er
                     | Inr val2 \<Rightarrow>
                         (case exit_on_value_error 3 (convert_value e option1 val2) of
                            Inl er \<Rightarrow> Inl er
                          | Inr val3 \<Rightarrow> Inr ((fst ds)(dest option1 \<mapsto> val3), st1)))))"

fun apply_config ::
  "penv \<Rightarrow> parser \<Rightarrow> strdict \<Rightarrow> (string option \<rightharpoonup> pyval) \<times> store
     \<Rightarrow> error + (string option \<rightharpoonup> pyval) \<times> store" where
  "apply_config e p [] ds = Inr ds"
| "apply_config e p (kv # rest) ds =
     (case apply_item e p kv ds of
        Inl er \<Rightarrow> Inl er
      | Inr ds1 \<Rightarrow> apply_config e p rest ds1)"

definition update_defaults ::
  "penv \<Rightarrow> parser \<Rightarrow> (string option \<rightharpoonup> pyval) \<Rightarrow> store
     \<Rightarrow> error + (string option \<rightharpoonup> pyval) \<times> store" where
  "update_defaults e p dflts st = apply_config e p (merged_config e p) (dflts, st)"

text \<open>The loop of \<^verbatim>\<open>get_default_values\<close>: a default that is a string is checked
  as a value of each option that has this destination.\<close>

fun check_string_defaults ::
  "penv \<Rightarrow> store \<Rightarrow> nat list \<Rightarrow> (string option \<rightharpoonup> pyval) \<Rightarrow> error + (string option \<rightharpoonup> pyval)" where
  "check_string_defaults e st [] dflts = Inr dflts"
| "check_string_defaults e st (a # rest) dflts =
     (case obj st a of
        None \<Rightarrow> Inl TypeError
      | Some option \<Rightarrow>
          (case dflts (dest option) of
             Some (PStr s) \<Rightarrow>
               (case check_value e option (PStr s) of
                  Inl er \<Rightarrow> Inl er
                | Inr v \<Rightarrow> check_string_defaults e st rest (dflts(dest option \<mapsto> v)))
           | _ \<Rightarrow> check_string_defaults e st rest dflts))"

text \<open>\<^verbatim>\<open>optparse.Values(defaults)\<close> sets one attribute for each key; a key that is
  not a string (the destination None) makes \<^verbatim>\<open>setattr\<close> raise TypeError.\<close>

definition make_values :: "(string option \<rightharpoonup> pyval) \<Rightarrow> error + pyvalues" where
  "make_values dflts =
     (if dflts None \<noteq> None then Inl TypeError else Inr (\<lambda>a. dflts (Some a)))"

definition get_default_values :: "penv \<Rightarrow> parser \<Rightarrow> store \<Rightarrow> error + pyvalues \<times> store" where
  "get_default_values e p st =
     (if \<not> process_default_values p then
        (case make_values (defaults p) of Inl er \<Rightarrow> Inl er | Inr vs \<Rightarrow> Inr (vs, st))
      else
        (case update_defaults e p (defaults p) st of
           Inl er \<Rightarrow> Inl er
         | Inr (dflts, st1) \<Rightarrow>
             (case check_string_defaults e st1 (get_all_options p) dflts of
                Inl er \<Rightarrow> Inl er
              | Inr dflts2 \<Rightarrow>
                  (case make_values dflts2 of
                     Inl er \<Rightarrow> Inl er
                   | Inr vs \<Rightarrow> Inr (vs, st1)))))"

subsection \<open>create\_main\_parser\<close>

text \<open>\<^verbatim>\<open>Option(...)\<close> as \<^verbatim>\<open>Option.__init__\<close> completes it: an action that takes
  a value has \<^verbatim>\<open>nargs = 1\<close> unless told otherwise, the others have none.\<close>

definition mk_option ::
  "string list \<Rightarrow> string list \<Rightarrow> action \<Rightarrow> opt_type \<Rightarrow> string \<Rightarrow> pyval option \<Rightarrow> opt" where
  "mk_option shorts longs act ty dst dflt =
     \<lparr> short_opts = shorts, long_opts = longs, action = act, otype = ty,
       dest = Some dst, nargs = (if ty = NoType then None else Some 1),
       default = dflt, container = None \<rparr>"

text \<open>\<^verbatim>\<open>container.add_option('-x', '--long', ...)\<close>: a new Option object, at the
  next free address, added to the container.\<close>

fun group_add_new ::
  "opt list \<Rightarrow> (string \<times> nat list) \<times> parser \<times> store
     \<Rightarrow> error + (string \<times> nat list) \<times> parser \<times> store" where
  "group_add_new [] gps = Inr gps"
| "group_add_new (option # rest) gps =
     (case gps of
        (g, p, st) \<Rightarrow>
          (case group_add_option (length st) (g, p, st @ [option]) of
             Inl er \<Rightarrow> Inl er
           | Inr gps1 \<Rightarrow> group_add_new rest gps1))"

fun parser_add_new :: "opt list \<Rightarrow> parser \<times> store \<Rightarrow> error + parser \<times> store" where
  "parser_add_new [] ps = Inr ps"
| "parser_add_new (option # rest) ps =
     (case parser_add_option (length (snd ps)) (fst ps, snd ps @ [option]) of
        Inl er \<Rightarrow> Inl er
      | Inr ps1 \<Rightarrow> parser_add_new rest ps1)"

definition general_options :: "opt list" where
  "general_options =
     [mk_option [''-h''] [''--help''] StoreTrue NoType ''help'' None,
      mk_option [''-V''] [''--version''] StoreTrue NoType ''version'' None,
      mk_option [''-v''] [''--verbose''] Count NoType ''verbose'' (Some (PInt 0)),
      mk_option [''-q''] [''--quiet''] Count NoType ''quiet'' (Some (PInt 0)),
      mk_option [] [''--log''] Store TString ''log'' None,
      mk_option [] [''--proxy''] Store TString ''proxy'' (Some (PStr '''')),
      mk_option [] [''--timeout'', ''--default-timeout''] Store TFloat ''timeout''
        (Some (PInt 15))]"

definition suppressed_options :: "string \<Rightarrow> opt list" where
  "suppressed_options default_log_file =
     [mk_option [] [''--log-explicit-levels''] StoreTrue NoType ''log_explicit_levels''
        (Some (PBool False)),
      mk_option [] [''--require-virtualenv'', ''--require-venv''] StoreTrue NoType
        ''require_venv'' (Some (PBool False)),
      mk_option [] [''--local-log'', ''--log-file''] Store TString ''log_file''
        (Some (PStr default_log_file)),
      mk_option [] [''--no-input''] StoreTrue NoType ''no_input'' (Some (PBool False)),
      mk_option [] [''--default-vcs''] Store TString ''default_vcs'' (Some (PStr '''')),
      mk_option [] [''--skip-requirements-regex''] Store TString
        ''skip_requirements_regex'' (Some (PStr ''''))]"

definition create_main_parser ::
  "string \<Rightarrow> (string \<rightharpoonup> (string \<times> string) list) \<Rightarrow> store \<Rightarrow> error + parser \<times> store" where
  "create_main_parser default_log_file cfg st =
     (case group_add_new general_options
             ((''General options'', []), new_parser ''global'' cfg, st) of
        Inl er \<Rightarrow> Inl er
      | Inr (general_opts, p1, st1) \<Rightarrow>
          parser_add_new (suppressed_options default_log_file)
            (add_option_group general_opts p1, st1))"

section \<open>basecommand.py: Command.\_\_init\_\_\<close>

text \<open>\<^verbatim>\<open>_copy_options\<close>: the Option objects themselves are added, not copies; an
  option without destination and the help option are skipped.\<close>

definition skipped :: "opt \<Rightarrow> bool" where
  "skipped option = (dest option = None \<or> dest option = Some [] \<or> dest option = Some ''help'')"

fun copy_options_parser :: "nat list \<Rightarrow> parser \<times> store \<Rightarrow> error + parser \<times> store" where
  "copy_options_parser [] ps = Inr ps"
| "copy_options_parser (a # rest) ps =
     (case obj (snd ps) a of
        None \<Rightarrow> Inl TypeError
      | Some option \<Rightarrow>
          if skipped option then copy_options_parser rest ps
          else (case parser_add_option a ps of
                  Inl er \<Rightarrow> Inl er
                | Inr ps1 \<Rightarrow> copy_options_parser rest ps1))"

fun copy_options_group ::
  "nat list \<Rightarrow> (string \<times> nat list) \<times> parser \<times> store
     \<Rightarrow> error + (string \<times> nat list) \<times> parser \<times> store" where
  "copy_options_group [] gps = Inr gps"
| "copy_options_group (a # rest) gps =
     (case obj (snd (snd gps)) a of
        None \<Rightarrow> Inl TypeError
      | Some option \<Rightarrow>
          if skipped option then copy_options_group rest gps
          else (case group_add_option a gps of
                  Inl er \<Rightarrow> Inl er
                | Inr gps1 \<Rightarrow> copy_options_group rest gps1))"

definition copy_option_group ::
  "string \<times> nat list \<Rightarrow> parser \<times> store \<Rightarrow> error + parser \<times> store" where
  "copy_option_group g ps =
     (case copy_options_group (snd g) ((fst g, []), ps) of
        Inl er \<Rightarrow> Inl er
      | Inr (new_group, p1, st1) \<Rightarrow> Inr (add_option_group new_group p1, st1))"

fun copy_option_groups ::
  "(string \<times> nat list) list \<Rightarrow> parser \<times> store \<Rightarrow> error + parser \<times> store" where
  "copy_option_groups [] ps = Inr ps"
| "copy_option_groups (g # rest) ps =
     (case copy_option_group g ps of
        Inl er \<Rightarrow> Inl er
      | Inr ps1 \<Rightarrow> copy_option_groups rest ps1)"

text \<open>The parser of a command named \<open>nm\<close>, built from the main parser. The new
  parser reads the configuration files itself (\<open>cfg\<close>). The group
  \<^verbatim>\<open>command_group\<close> is created empty and is not attached to the parser here.\<close>

definition command_init ::
  "string \<Rightarrow> (string \<rightharpoonup> (string \<times> string) list) \<Rightarrow> parser \<Rightarrow> store
     \<Rightarrow> error + parser \<times> store" where
  "command_init nm cfg main_parser st =
     (if nm = [] then Inl AssertionError
      else (case copy_option_groups (option_groups main_parser) (new_parser nm cfg, st) of
              Inl er \<Rightarrow> Inl er
            | Inr ps \<Rightarrow> copy_options_parser (option_list main_parser) ps))"

section \<open>optparse: parse\_args\<close>

text \<open>
  \<^verbatim>\<open>OptionParser.parse_args\<close> belongs to the Python library. Its documented
  behaviour is modelled on a command line already cut into option occurrences (the
  option string and the arguments it consumed): the values start as
  \<^verbatim>\<open>get_default_values()\<close> and each occurrence, from left to right, is converted and
  applied by the option's action. An unknown option, a wrong number of arguments or
  a bad value ends the process with status 2. The actions other than store,
  store\_true, store\_false, append and count are not modelled, nor is the sharing
  of a default list between the defaults and the values that \<^verbatim>\<open>append\<close> extends.
\<close>

datatype occurrence = Occ string "string list"

definition ensure_value :: "pyvalues \<Rightarrow> string \<Rightarrow> pyval \<Rightarrow> pyval" where
  "ensure_value vs a v =
     (case vs a of None \<Rightarrow> v | Some PNone \<Rightarrow> v | Some x \<Rightarrow> x)"

definition take_action :: "opt \<Rightarrow> pyval \<Rightarrow> pyvalues \<Rightarrow> error + pyvalues" where
  "take_action option v vs =
     (case dest option of
        None \<Rightarrow> Inl TypeError
      | Some d \<Rightarrow>
          (case action option of
             Store \<Rightarrow> Inr (vs(d \<mapsto> v))
           | StoreTrue \<Rightarrow> Inr (vs(d \<mapsto> PBool True))
           | StoreFalse \<Rightarrow> Inr (vs(d \<mapsto> PBool False))
           | Append \<Rightarrow>
               (case ensure_value vs d (PList []) of
                  PList xs \<Rightarrow> Inr (vs(d \<mapsto> PList (xs @ [v])))
                | _ \<Rightarrow> Inl (AttributeError ''append''))
           | Count \<Rightarrow>
               (case py_add (ensure_value vs d (PInt 0)) (PInt 1) of
                  Inl er \<Rightarrow> Inl er
                | Inr s \<Rightarrow> Inr (vs(d \<mapsto> s)))
           | OtherAction \<Rightarrow> Inl NotModelled))"

definition raw_value :: "opt \<Rightarrow> string list \<Rightarrow> error + pyval" where
  "raw_value option args =
     (if otype option = NoType then (if args = [] then Inr PNone else Inl (SystemExit 2))
      else if nargs option \<noteq> Some (length args) then Inl (SystemExit 2)
      else (case args of [x] \<Rightarrow> Inr (PStr x) | _ \<Rightarrow> Inr (PTuple (map PStr args))))"

definition process_occurrence ::
  "penv \<Rightarrow> parser \<Rightarrow> store \<Rightarrow> occurrence \<Rightarrow> pyvalues \<Rightarrow> error + pyvalues" where
  "process_occurrence e p st oc vs =
     (case oc of
        Occ s args \<Rightarrow>
          (case get_option p s of
             None \<Rightarrow> Inl (SystemExit 2)
           | Some a \<Rightarrow>
               (case obj st a of
                  None \<Rightarrow> Inl TypeError
                | Some option \<Rightarrow>
                    (case raw_value option args of
                       Inl er \<Rightarrow> Inl er
                     | Inr raw \<Rightarrow>
                         (case exit_on_value_error 2 (convert_value e option raw) of
                            Inl er \<Rightarrow> Inl er
                          | Inr v \<Rightarrow> take_action option v vs)))))"

fun process_all ::
  "penv \<Rightarrow> parser \<Rightarrow> store \<Rightarrow> occurrence list \<Rightarrow> pyvalues \<Rightarrow> error + pyvalues" where
  "process_all e p st [] vs = Inr vs"
| "process_all e p st (oc # rest) vs =
     (case process_occurrence e p st oc vs of
        Inl er \<Rightarrow> Inl er
      | Inr vs1 \<Rightarrow> process_all e p st rest vs1)"

definition parse_args ::
  "penv \<Rightarrow> parser \<Rightarrow> store \<Rightarrow> occurrence list \<Rightarrow> error + pyvalues \<times> store" where
  "parse_args e p st cli =
     (case get_default_values e p st of
        Inl er \<Rightarrow> Inl er
      | Inr (vs, st1) \<Rightarrow>
          (case process_all e p st1 cli vs of
             Inl er \<Rightarrow> Inl er
           | Inr vs1 \<Rightarrow> Inr (vs1, st1)))"

section \<open>Notions used in the properties\<close>

text \<open>The option an occurrence names, whether it writes the destination \<open>d\<close>,
  and whether it does so by counting.\<close>

definition occ_option :: "parser \<Rightarrow> store \<Rightarrow> occurrence \<Rightarrow> opt option" where
  "occ_option p st oc =
     (case oc of Occ s args \<Rightarrow>
        (case get_option p s of None \<Rightarrow> None | Some a \<Rightarrow> obj st a))"

definition writes :: "parser \<Rightarrow> store \<Rightarrow> string \<Rightarrow> occurrence \<Rightarrow> bool" where
  "writes p st d oc =
     (case occ_option p st oc of None \<Rightarrow> False | Some option \<Rightarrow> dest option = Some d)"

definition counts :: "parser \<Rightarrow> store \<Rightarrow> string \<Rightarrow> occurrence \<Rightarrow> bool" where
  "counts p st d oc =
     (case occ_option p st oc of
        None \<Rightarrow> False
      | Some option \<Rightarrow> dest option = Some d \<and> action option = Count)"

text \<open>The store with the attribute \<^verbatim>\<open>nargs\<close> of every Option object blanked: two
  stores with the same image differ in \<^verbatim>\<open>nargs\<close> attributes at most.\<close>

definition erase_nargs :: "store \<Rightarrow> store" where
  "erase_nargs st = map (\<lambda>option. option\<lparr> nargs := None \<rparr>) st"

text \<open>The parsers of the examples: no configuration file, the main parser built in
  an empty store, and the parser of a command \<^verbatim>\<open>install\<close> built from it.\<close>

definition env_empty :: penv where
  "env_empty = \<lparr> os_environ = [], type_checker = (\<lambda>t v. Inl OptionValueError) \<rparr>"

definition built_main :: "parser \<times> store" where
  "built_main =
     (case create_main_parser ''/pip.log'' Map.empty [] of
        Inr ps \<Rightarrow> ps | Inl er \<Rightarrow> (new_parser ''global'' Map.empty, []))"

definition built_install :: "(string \<rightharpoonup> (string \<times> string) list) \<Rightarrow> parser \<times> store" where
  "built_install cfg =
     (case command_init ''install'' cfg (fst built_main) (snd built_main) of
        Inr ps \<Rightarrow> ps | Inl er \<Rightarrow> (new_parser ''install'' cfg, []))"

text \<open>\<open>nargs_set st st1\<close>: the store \<open>st1\<close> is \<open>st\<close> except that some Option
  objects whose action is not append have \<^verbatim>\<open>nargs = 1\<close> now.\<close>

definition nargs_set :: "store \<Rightarrow> store \<Rightarrow> bool" where
  "nargs_set st st1 =
     (length st1 = length st
      \<and> (\<forall>a < length st. st1 ! a = st ! a
            \<or> (action (st ! a) \<noteq> Append \<and> st1 ! a = (st ! a)\<lparr> nargs := Some 1 \<rparr>)))"

text \<open>A configuration file with \<^verbatim>\<open>verbose = 1\<close> in the section of the command
  \<^verbatim>\<open>install\<close>, and a command option as a command class adds it.\<close>

definition config_install_verbose :: "string \<rightharpoonup> (string \<times> string) list" where
  "config_install_verbose = [''install'' \<mapsto> [(''verbose'', ''1'')]]"

definition upgrade_option :: opt where
  "upgrade_option = mk_option [''-U''] [''--upgrade''] StoreTrue NoType ''upgrade'' None"

text \<open>The store with the back pointer \<^verbatim>\<open>container\<close> of every Option object
  blanked.\<close>

definition erase_container :: "store \<Rightarrow> store" where
  "erase_container st = map (\<lambda>option. option\<lparr> container := None \<rparr>) st"











section \<open>basecommand.py: Command.main, from the command line\<close>

text \<open>\<^verbatim>\<open>main(args, initial_options)\<close>: the command's parser parses the rest of
  the command line, then the run goes on as above. \<open>positional\<close> is what
  \<^verbatim>\<open>parse_args\<close> leaves as arguments.\<close>

definition command_main ::
  "ctx \<Rightarrow> penv \<Rightarrow> command_body \<Rightarrow> parser \<Rightarrow> store \<Rightarrow> occurrence list \<Rightarrow> string list
     \<Rightarrow> pyvalues \<Rightarrow> world \<Rightarrow> (error + pyval) \<times> world" where
  "command_main c e run p st cli positional initial_options w =
     (case parse_args e p st cli of
        Inl er \<Rightarrow> (Inl er, w)
      | Inr (options, st1) \<Rightarrow> main_from c run initial_options options positional w)"

chapter \<open>Properties\<close>

section \<open>Properties of merge\_options\<close>

lemma merge_attrs_other:
  "merge_attrs as i opts = Inr m \<Longrightarrow> a \<notin> set as \<Longrightarrow> m a = opts a"
proof (induction as arbitrary: opts)
  case Nil
  then show ?case by simp
next
  case (Cons b bs)
  then show ?case
    by (auto simp: getattr_def setattr_def split: option.splits sum.splits if_splits)
qed

lemma py_or_idem: "py_or x (py_or x y) = py_or x y"
  by (simp add: py_or_def)

lemma merge_attrs_member:
  "merge_attrs as i opts = Inr m \<Longrightarrow> a \<in> set as \<Longrightarrow> i a = Some x \<Longrightarrow> opts a = Some y
     \<Longrightarrow> m a = Some (py_or x y)"
proof (induction as arbitrary: opts y)
  case Nil
  then show ?case by simp
next
  case (Cons b bs)
  show ?case
  proof (cases "a = b")
    case True
    let ?o' = "setattr opts a (py_or x y)"
    from Cons.prems True have run: "merge_attrs bs i ?o' = Inr m"
      by (auto simp: getattr_def py_or_def split: if_splits)
    show ?thesis
    proof (cases "a \<in> set bs")
      case True
      have "?o' a = Some (py_or x y)" by (simp add: setattr_def)
      from Cons.IH[OF run True Cons.prems(3) this] show ?thesis
        by (simp add: py_or_idem)
    next
      case False
      from merge_attrs_other[OF run False] show ?thesis by (simp add: setattr_def)
    qed
  next
    case False
    with Cons.prems obtain v where run: "merge_attrs bs i (setattr opts b v) = Inr m"
      by (auto simp: getattr_def split: option.splits if_splits)
    from False Cons.prems have mem: "a \<in> set bs" by simp
    from False Cons.prems have "(setattr opts b v) a = Some y" by (simp add: setattr_def)
    from Cons.IH[OF run mem Cons.prems(3) this] show ?thesis .
  qed
qed

lemma add_from_other:
  "add_from b i opts = Inr m \<Longrightarrow> a \<noteq> b \<Longrightarrow> m a = opts a"
  by (auto simp: add_from_def getattr_def setattr_def split: option.splits sum.splits)

lemma add_from_value:
  "add_from b i opts = Inr m \<Longrightarrow> opts b = Some x \<Longrightarrow> i b = Some y
     \<Longrightarrow> py_add x y = Inr s \<Longrightarrow> m b = Some s"
  by (auto simp: add_from_def getattr_def setattr_def split: option.splits sum.splits)

text \<open>
  C2 (as amended). For every attribute of the carry-over set that both scopes hold,
  the merged value is the global-scope value when that one is truthy, and the
  command-scope value only when the global-scope value is falsy.
\<close>

theorem merge_options_carry_over:
  assumes "merge_options initial_options options = Inr merged"
    and "attr \<in> set carry_over"
    and "initial_options attr = Some g"
    and "options attr = Some c"
  shows "merged attr = Some (if truthy g then g else c)"
proof -
  from assms(1) obtain o1 o2 where
    s1: "merge_attrs carry_over initial_options options = Inr o1" and
    s2: "add_from ''quiet'' initial_options o1 = Inr o2" and
    s3: "add_from ''verbose'' initial_options o2 = Inr merged"
    by (auto simp: merge_options_def split: sum.splits)
  from assms(2) have nq: "attr \<noteq> ''quiet''" and nv: "attr \<noteq> ''verbose''"
    by (auto simp: carry_over_def)
  have "o1 attr = Some (py_or g c)"
    by (rule merge_attrs_member[OF s1 assms(2) assms(3) assms(4)])
  moreover have "o2 attr = o1 attr" by (rule add_from_other[OF s2 nq])
  moreover have "merged attr = o2 attr" by (rule add_from_other[OF s3 nv])
  ultimately show ?thesis by (simp add: py_or_def)
qed


lemmas merge_eval =
  merge_options_def carry_over_def main_defaults_def getattr_def setattr_def add_from_def
  opts_plain_def opts_cmd_timeout_def

theorem merge_options_carry_over_witness:
  "(case merge_options opts_plain opts_cmd_timeout of
      Inl e \<Rightarrow> None | Inr m \<Rightarrow> m ''timeout'') = Some (PInt 15)"
proof -
  obtain m where m: "merge_options opts_plain opts_cmd_timeout = Inr m"
    by (simp add: merge_eval)
  have a: "''timeout'' \<in> set carry_over" by (simp add: carry_over_def)
  have g: "opts_plain ''timeout'' = Some (PInt 15)" by (simp add: merge_eval)
  have c: "opts_cmd_timeout ''timeout'' = Some (PFloat 30)" by (simp add: merge_eval)
  from merge_options_carry_over[OF m a g c] m show ?thesis by simp
qed

text \<open>
  C2 as stated fails: after \<^verbatim>\<open>pip install --timeout 30\<close> the command-scope
  timeout is the truthy 30.0, and the merged timeout is the global default 15.
\<close>

theorem merge_options_command_value_lost:
  "truthy (PFloat 30) \<and>
   opts_cmd_timeout ''timeout'' = Some (PFloat 30) \<and>
   (case merge_options opts_plain opts_cmd_timeout of
      Inl e \<Rightarrow> None | Inr m \<Rightarrow> m ''timeout'') = Some (PInt 15) \<and>
   PInt 15 \<noteq> PFloat 30"
  by (simp add: merge_eval)


section \<open>Properties of Command.main\<close>







lemmas main_eval =
  main_from_def prepare_def precondition_check_def open_user_log_def network_setup_def
  run_and_finish_def handle_result_def close_user_log_def store_complete_log_def
  open_logfile_def py_open_def makedirs_def path_exists_def dirname_def rstrip_slash_def
  fp_write_def fp_close_def append_file_def logger_log_def register_sinks_def
  console_level_def as_int_def virtual_env_active_def venv_message_def
  ctx0_def world0_def opts_require_venv_def opts_root_log_def
  body_none_def body_two_def body_raise_def py_or_def exc_info_def






text \<open>
  C9 on the code: the stored log is opened with mode 'w'. With the log file
  \<^verbatim>\<open>/pip.log\<close> holding ``earlier run'' and an installation that fails, the path is
  reported, then the file is opened, and the file ends up holding the separator, the
  banner and the new log only: the earlier content is gone.
\<close>

theorem stored_log_overwrites_existing_file:
  "files (snd (run_and_finish ctx0 (body_raise InstallationError) opts_root_log []
                 None world_old_log)) ''/pip.log''
     = Some (separator @ banner ctx0
             @ join_nl [''Downloading'', ''no such package'', exc_info ''Traceback''])
   \<and> trace (snd (run_and_finish ctx0 (body_raise InstallationError) opts_root_log []
                   None world_old_log))
     = [Logged NOTIFY ''Downloading'', Logged FATAL ''no such package'',
        Logged INFO (exc_info ''Traceback''),
        Logged FATAL ''Storing complete log in /pip.log'',
        Opened ''/pip.log'' ModeW,
        Wrote ''/pip.log'' separator, Wrote ''/pip.log'' (banner ctx0),
        Wrote ''/pip.log''
          (join_nl [''Downloading'', ''no such package'', exc_info ''Traceback'']),
        Closed ''/pip.log'']"
  by (simp add: main_eval main_defaults_def getattr_def world_old_log_def Let_def)

section \<open>Properties of FrozenRequirement\<close>

lemma requirement_str_pin:
  "req_extras r = [] \<Longrightarrow> req_specs r = [(''=='', v)]
     \<Longrightarrow> requirement_str r = req_project_name r @ ''=='' @ v"
  by (simp add: requirement_str_def)

text \<open>
  C7. A distribution that no VCS backend owns, whose requirement has the single
  specifier \<open>== v\<close> with \<open>v\<close> matching neither legacy pattern, is
  reconstructed as a non-editable record without comments, rendered as the line
  \<open>name==v\<close> and one newline. In this branch a requirement that has not exactly one
  specifier, or whose specifier is not \<open>==\<close>, fails the assertion.
\<close>

theorem plain_pin:
  assumes "\<not> str_truthy (get_backend_name vcs (normcase_abspath vcs (location d)))"
  shows "(req_specs (as_requirement d) = [(''=='', v)] \<longrightarrow> req_extras (as_requirement d) = []
            \<longrightarrow> rev_re_search v = None \<longrightarrow> date_re_search v = None
          \<longrightarrow> from_dist vcs d links tags =
                Inr \<lparr> name = project_name d, req = ReqObj (as_requirement d),
                      editable = False, comments = [] \<rparr>
              \<and> render \<lparr> name = project_name d, req = ReqObj (as_requirement d),
                          editable = False, comments = [] \<rparr>
                  = req_project_name (as_requirement d) @ ''=='' @ v @ [CHR 0x0A])
       \<and> ((\<forall>ver. req_specs (as_requirement d) \<noteq> [(''=='', ver)])
          \<longrightarrow> from_dist vcs d links tags = Inl AssertionError)"
proof (intro conjI impI)
  assume s: "req_specs (as_requirement d) = [(''=='', v)]"
    and r: "rev_re_search v = None" and dt: "date_re_search v = None"
  from assms s r dt show "from_dist vcs d links tags =
      Inr \<lparr> name = project_name d, req = ReqObj (as_requirement d),
            editable = False, comments = [] \<rparr>"
    by (simp add: from_dist_def Let_def)
next
  assume s: "req_specs (as_requirement d) = [(''=='', v)]"
    and e: "req_extras (as_requirement d) = []"
  show "render \<lparr> name = project_name d, req = ReqObj (as_requirement d),
                 editable = False, comments = [] \<rparr>
          = req_project_name (as_requirement d) @ ''=='' @ v @ [CHR 0x0A]"
    by (simp add: render_def requirement_str_pin[OF e s])
next
  assume n: "\<forall>ver. req_specs (as_requirement d) \<noteq> [(''=='', ver)]"
  with assms show "from_dist vcs d links tags = Inl AssertionError"
    by (auto simp: from_dist_def Let_def split: list.splits)
qed

lemmas freeze_eval =
  from_dist_def render_def requirement_str_def rev_re_search_def date_re_search_def
  before_eol_def is_digit_def egg_name_def revision_def str_truthy_def
  vcs_none_def vcs_svn_def dist_of_def fixme_comment_def editable_comment_def

theorem plain_pin_witness:
  "from_dist vcs_none (dist_of ''foo'' ''1.2.3'') [] False =
     Inr \<lparr> name = ''foo'',
           req = ReqObj \<lparr> req_project_name = ''foo'', req_extras = [],
                          req_specs = [(''=='', ''1.2.3'')] \<rparr>,
           editable = False, comments = [] \<rparr>
   \<and> render \<lparr> name = ''foo'',
               req = ReqObj \<lparr> req_project_name = ''foo'', req_extras = [],
                              req_specs = [(''=='', ''1.2.3'')] \<rparr>,
               editable = False, comments = [] \<rparr> = ''foo==1.2.3'' @ [CHR 0x0A]
   \<and> from_dist vcs_none
        ((dist_of ''foo'' ''1.2.3'')\<lparr> as_requirement :=
            \<lparr> req_project_name = ''foo'', req_extras = [],
              req_specs = [(''>='', ''1.2.3'')] \<rparr> \<rparr>) [] False = Inl AssertionError"
proof -
  have a: "\<not> str_truthy (get_backend_name vcs_none
              (normcase_abspath vcs_none (location (dist_of ''foo'' ''1.2.3''))))"
    by (simp add: freeze_eval)
  have a': "\<not> str_truthy (get_backend_name vcs_none
              (normcase_abspath vcs_none (location ((dist_of ''foo'' ''1.2.3'')
                 \<lparr> as_requirement := \<lparr> req_project_name = ''foo'', req_extras = [],
                      req_specs = [(''>='', ''1.2.3'')] \<rparr> \<rparr>))))"
    by (simp add: freeze_eval)
  have r: "rev_re_search ''1.2.3'' = None" by (simp add: freeze_eval)
  have dt: "date_re_search ''1.2.3'' = None" by (simp add: freeze_eval)
  from plain_pin[OF a, of "''1.2.3''" "[]" False] plain_pin[OF a', of "''1.2.3''" "[]" False]
    r dt
  show ?thesis by (simp add: dist_of_def)
qed

lemma before_eol_digit_end:
  "ds \<noteq> [] \<Longrightarrow> list_all is_digit ds \<Longrightarrow> before_eol (p @ ds) = p @ ds"
proof -
  assume a: "ds \<noteq> []" and b: "list_all is_digit ds"
  from a b have "is_digit (last ds)" by (simp add: list_all_iff)
  then have "last ds \<noteq> CHR 0x0A" by (auto simp: is_digit_def)
  with a show ?thesis by (simp add: before_eol_def)
qed

lemma rev_re_search_suffix:
  assumes "ds \<noteq> []" and "list_all is_digit ds"
  shows "rev_re_search (p @ ''-r'' @ ds) = Some ds"
proof -
  have e: "before_eol ((p @ ''-r'') @ ds) = (p @ ''-r'') @ ds"
    by (rule before_eol_digit_end[OF assms])
  have d: "\<forall>x \<in> set (rev ds). is_digit x" using assms(2) by (simp add: list_all_iff)
  have nr: "\<not> is_digit (CHR ''r'')" by (simp add: is_digit_def)
  have t: "takeWhile is_digit (rev ds @ CHR ''r'' # CHR ''-'' # rev p) = rev ds"
    using d nr by (subst takeWhile_append2) auto
  have dr: "dropWhile is_digit (rev ds @ CHR ''r'' # CHR ''-'' # rev p)
              = CHR ''r'' # CHR ''-'' # rev p"
    using d nr by (subst dropWhile_append2) auto
  from e have "rev (before_eol (p @ ''-r'' @ ds)) = rev ds @ CHR ''r'' # CHR ''-'' # rev p"
    by simp
  then show ?thesis using t dr assms(1) by (simp add: rev_re_search_def Let_def)
qed

lemma date_re_search_suffix:
  assumes "length ds = 6" and "list_all is_digit ds"
  shows "date_re_search (p @ ''-20'' @ ds) = Some (''20'' @ ds)"
proof -
  from assms(1) have ne: "ds \<noteq> []" by auto
  have e: "before_eol ((p @ ''-20'') @ ds) = (p @ ''-20'') @ ds"
    by (rule before_eol_digit_end[OF ne assms(2)])
  then have r: "rev (before_eol (p @ ''-20'' @ ds))
                  = rev ds @ CHR ''0'' # CHR ''2'' # CHR ''-'' # rev p"
    by simp
  have d: "list_all is_digit (rev ds)" using assms(2) by (simp add: list_all_iff)
  from assms(1) have l: "length (rev ds) = 6" by simp
  show ?thesis
    unfolding date_re_search_def Let_def r using d l assms(1) by simp
qed

text \<open>
  C8. For a distribution that no VCS backend owns, with the single specifier
  \<open>== v\<close> where \<open>v\<close> matches the revision pattern or the date pattern (the two
  cases in which the svn backend is queried), and with an svn backend registered:
  if the backend returns no location (None or the empty string) the record stays
  the non-editable pin and holds the one comment about the missing svn URL; if it
  returns a location the record is editable and its requirement is
  \<open>location@revision#egg=name\<close>, the revision being the digits after \<open>-r\<close>, or
  else the date in braces. Versions \<open>p-r<digits>\<close> and \<open>p-20<six digits>\<close>
  match the patterns.
\<close>

theorem legacy_suffix:
  assumes "\<not> str_truthy (get_backend_name vcs (normcase_abspath vcs (location d)))"
    and "req_specs (as_requirement d) = [(''=='', v)]"
    and "rev_re_search v \<noteq> None \<or> date_re_search v \<noteq> None"
    and "get_backend vcs ''svn'' = Some get_location"
  shows "(\<not> str_truthy (get_location d links)
            \<longrightarrow> from_dist vcs d links tags =
                  Inr \<lparr> name = project_name d, req = ReqObj (as_requirement d),
                        editable = False, comments = [fixme_comment] \<rparr>)
       \<and> (str_truthy (get_location d links)
            \<longrightarrow> from_dist vcs d links tags =
                  Inr \<lparr> name = project_name d,
                        req = ReqStr (the (get_location d links) @ ''@''
                                @ (case rev_re_search v of
                                     Some g \<Rightarrow> g
                                   | None \<Rightarrow> ''{'' @ the (date_re_search v) @ ''}'')
                                @ ''#egg='' @ egg_name d),
                        editable = True,
                        comments = [editable_comment (as_requirement d)] \<rparr>)
       \<and> (\<forall>p ds. ds \<noteq> [] \<and> list_all is_digit ds
                   \<longrightarrow> rev_re_search (p @ ''-r'' @ ds) = Some ds)
       \<and> (\<forall>p ds. length ds = 6 \<and> list_all is_digit ds
                   \<longrightarrow> date_re_search (p @ ''-20'' @ ds) = Some (''20'' @ ds))"
proof (intro conjI impI allI)
  assume "\<not> str_truthy (get_location d links)"
  with assms show "from_dist vcs d links tags =
      Inr \<lparr> name = project_name d, req = ReqObj (as_requirement d),
            editable = False, comments = [fixme_comment] \<rparr>"
    by (auto simp: from_dist_def Let_def str_truthy_def split: option.splits list.splits)
next
  assume "str_truthy (get_location d links)"
  with assms show "from_dist vcs d links tags =
      Inr \<lparr> name = project_name d,
            req = ReqStr (the (get_location d links) @ ''@''
                    @ (case rev_re_search v of
                         Some g \<Rightarrow> g
                       | None \<Rightarrow> ''{'' @ the (date_re_search v) @ ''}'')
                    @ ''#egg='' @ egg_name d),
            editable = True,
            comments = [editable_comment (as_requirement d)] \<rparr>"
    by (auto simp: from_dist_def Let_def str_truthy_def revision_def
          split: option.splits list.splits)
next
  fix p ds :: string
  assume "ds \<noteq> [] \<and> list_all is_digit ds"
  then show "rev_re_search (p @ ''-r'' @ ds) = Some ds"
    using rev_re_search_suffix[of ds p] by blast
next
  fix p ds :: string
  assume "length ds = 6 \<and> list_all is_digit ds"
  then show "date_re_search (p @ ''-20'' @ ds) = Some (''20'' @ ds)"
    using date_re_search_suffix[of ds p] by blast
qed

theorem legacy_suffix_witness:
  "from_dist (vcs_svn None) (dist_of ''foo'' ''1.2-r45'') [] False =
     Inr \<lparr> name = ''foo'', req = ReqObj (as_requirement (dist_of ''foo'' ''1.2-r45'')),
           editable = False, comments = [fixme_comment] \<rparr>
   \<and> render \<lparr> name = ''foo'', req = ReqObj (as_requirement (dist_of ''foo'' ''1.2-r45'')),
               editable = False, comments = [fixme_comment] \<rparr>
       = fixme_comment @ [CHR 0x0A] @ ''foo==1.2-r45'' @ [CHR 0x0A]
   \<and> from_dist (vcs_svn (Some ''svn+http://svn/foo'')) (dist_of ''foo'' ''1.2-20120131'')
        [] False =
     Inr \<lparr> name = ''foo'', req = ReqStr (''svn+http://svn/foo@'' @ ''{20120131}#egg=foo-1.2-20120131''),
           editable = True,
           comments = [editable_comment (as_requirement (dist_of ''foo'' ''1.2-20120131''))] \<rparr>
   \<and> rev_re_search ''1.2-r45'' = Some ''45''"
proof -
  have a: "\<not> str_truthy (get_backend_name (vcs_svn f)
              (normcase_abspath (vcs_svn f) (location (dist_of ''foo'' v))))" for f v
    by (simp add: freeze_eval)
  have s: "req_specs (as_requirement (dist_of ''foo'' v)) = [(''=='', v)]" for v
    by (simp add: dist_of_def)
  have m1: "rev_re_search ''1.2-r45'' \<noteq> None \<or> date_re_search ''1.2-r45'' \<noteq> None"
    by (simp add: freeze_eval)
  have m2: "rev_re_search ''1.2-20120131'' = None" "date_re_search ''1.2-20120131'' = Some ''20120131''"
    by (simp_all add: freeze_eval)
  then have m2': "rev_re_search ''1.2-20120131'' \<noteq> None
      \<or> date_re_search ''1.2-20120131'' \<noteq> None" by simp
  have b: "get_backend (vcs_svn f) ''svn'' = Some (\<lambda>d links. f)" for f
    by (simp add: vcs_svn_def)
  have eg: "egg_name (dist_of ''foo'' ''1.2-20120131'') = ''foo-1.2-20120131''"
    by (simp add: freeze_eval)
  have rn: "render \<lparr> name = ''foo'', req = ReqObj (as_requirement (dist_of ''foo'' ''1.2-r45'')),
               editable = False, comments = [fixme_comment] \<rparr>
       = fixme_comment @ [CHR 0x0A] @ ''foo==1.2-r45'' @ [CHR 0x0A]"
    by (simp add: render_def requirement_str_def dist_of_def)
  have r45: "rev_re_search ''1.2-r45'' = Some ''45''" by (simp add: freeze_eval)
  from legacy_suffix[OF a s m1 b, of None "[]" False]
    legacy_suffix[OF a s m2' b, of "Some ''svn+http://svn/foo''" "[]" False]
    m2 eg rn r45
  show ?thesis by (simp add: str_truthy_def dist_of_def)
qed

text \<open>
  C10. In the same branch, when the version matches a legacy pattern and no svn
  backend is registered, \<^verbatim>\<open>svn_location\<close> is read before it was ever assigned:
  \<^verbatim>\<open>from_dist\<close> raises UnboundLocalError and gives no record.
\<close>

theorem svn_location_unbound:
  assumes "\<not> str_truthy (get_backend_name vcs (normcase_abspath vcs (location d)))"
    and "req_specs (as_requirement d) = [(''=='', v)]"
    and "rev_re_search v \<noteq> None \<or> date_re_search v \<noteq> None"
    and "get_backend vcs ''svn'' = None"
  shows "from_dist vcs d links tags = Inl UnboundLocalError"
  using assms by (auto simp: from_dist_def Let_def)

theorem svn_location_unbound_witness:
  "from_dist vcs_none (dist_of ''foo'' ''1.2-r45'') [] False = Inl UnboundLocalError"
proof -
  have a: "\<not> str_truthy (get_backend_name vcs_none
              (normcase_abspath vcs_none (location (dist_of ''foo'' ''1.2-r45''))))"
    by (simp add: freeze_eval)
  have s: "req_specs (as_requirement (dist_of ''foo'' ''1.2-r45'')) = [(''=='', ''1.2-r45'')]"
    by (simp add: dist_of_def)
  have m: "rev_re_search ''1.2-r45'' \<noteq> None \<or> date_re_search ''1.2-r45'' \<noteq> None"
    by (simp add: freeze_eval)
  have b: "get_backend vcs_none ''svn'' = None" by (simp add: vcs_none_def)
  from svn_location_unbound[OF a s m b] show ?thesis .
qed

section \<open>Properties of the option parsers\<close>

lemma process_occurrence_inv:
  assumes "process_occurrence e p st oc vs = Inr vs1"
  shows "\<exists>option v. occ_option p st oc = Some option \<and> take_action option v vs = Inr vs1"
proof -
  obtain s args where oc: "oc = Occ s args" by (cases oc)
  from assms oc obtain a where a: "get_option p s = Some a"
    by (auto simp: process_occurrence_def split: option.splits)
  from assms oc a obtain option where o: "obj st a = Some option"
    by (auto simp: process_occurrence_def split: option.splits)
  from assms oc a o obtain raw where r: "raw_value option args = Inr raw"
    by (auto simp: process_occurrence_def split: sum.splits)
  from assms oc a o r obtain v where "take_action option v vs = Inr vs1"
    by (auto simp: process_occurrence_def split: sum.splits)
  with oc a o show ?thesis by (auto simp: occ_option_def)
qed

lemma take_action_other:
  "take_action option v vs = Inr vs1 \<Longrightarrow> dest option \<noteq> Some d \<Longrightarrow> vs1 d = vs d"
  by (auto simp: take_action_def split: option.splits action.splits pyval.splits sum.splits)

lemma take_action_count:
  "take_action option v vs = Inr vs1 \<Longrightarrow> dest option = Some d \<Longrightarrow> action option = Count
     \<Longrightarrow> vs d = Some (PInt n) \<Longrightarrow> vs1 d = Some (PInt (n + 1))"
  by (auto simp: take_action_def ensure_value_def split: sum.splits)

lemma process_occurrence_other:
  "process_occurrence e p st oc vs = Inr vs1 \<Longrightarrow> \<not> writes p st d oc \<Longrightarrow> vs1 d = vs d"
  using process_occurrence_inv[of e p st oc vs vs1] take_action_other
  by (fastforce simp: writes_def)

lemma process_occurrence_count:
  "process_occurrence e p st oc vs = Inr vs1 \<Longrightarrow> counts p st d oc
     \<Longrightarrow> vs d = Some (PInt n) \<Longrightarrow> vs1 d = Some (PInt (n + 1))"
  using process_occurrence_inv[of e p st oc vs vs1] take_action_count
  by (fastforce simp: counts_def)

lemma process_all_count:
  "process_all e p st cli vs = Inr vs1 \<Longrightarrow> vs d = Some (PInt n)
     \<Longrightarrow> \<forall>oc \<in> set cli. writes p st d oc \<longrightarrow> counts p st d oc
     \<Longrightarrow> vs1 d = Some (PInt (n + int (length (filter (writes p st d) cli))))"
proof (induction cli arbitrary: vs n)
  case Nil
  then show ?case by simp
next
  case (Cons oc rest)
  from Cons.prems(1) obtain vs2 where
    s: "process_occurrence e p st oc vs = Inr vs2" and
    r: "process_all e p st rest vs2 = Inr vs1"
    by (auto split: sum.splits)
  show ?case
  proof (cases "writes p st d oc")
    case True
    with Cons.prems(3) have "counts p st d oc" by simp
    from process_occurrence_count[OF s this Cons.prems(2)]
    have "vs2 d = Some (PInt (n + 1))" .
    from Cons.IH[OF r this] Cons.prems(3) True show ?thesis by simp
  next
    case False
    from process_occurrence_other[OF s False] Cons.prems(2)
    have "vs2 d = Some (PInt n)" by simp
    from Cons.IH[OF r this] Cons.prems(3) False show ?thesis by simp
  qed
qed

lemma erase_update_same:
  assumes "obj st a = Some option" and "o1\<lparr> nargs := None \<rparr> = option\<lparr> nargs := None \<rparr>"
  shows "erase_nargs (st[a := o1]) = erase_nargs st"
proof -
  from assms(1) have a: "a < length st" and o: "st ! a = option"
    by (auto simp: obj_def split: if_splits)
  have "erase_nargs (st[a := o1]) = (erase_nargs st)[a := o1\<lparr> nargs := None \<rparr>]"
    by (simp add: erase_nargs_def map_update)
  also have "\<dots> = (erase_nargs st)[a := (erase_nargs st) ! a]"
    using a o assms(2) by (simp add: erase_nargs_def)
  also have "\<dots> = erase_nargs st" by simp
  finally show ?thesis .
qed

lemma apply_item_erase:
  assumes "apply_item e p kv ds = Inr ds1"
  shows "erase_nargs (snd ds1) = erase_nargs (snd ds)"
proof (cases "get_option p (fst kv)")
  case None
  with assms show ?thesis by (simp add: apply_item_def)
next
  case (Some a)
  show ?thesis
  proof (cases "obj (snd ds) a")
    case None
    with Some assms show ?thesis by (simp add: apply_item_def)
  next
    case o: (Some option)
    show ?thesis
    proof (cases "snd kv = []")
      case True
      with Some o assms show ?thesis by (simp add: apply_item_def)
    next
      case False
      define o1 where "o1 = (if action option = Append then option else option\<lparr> nargs := Some 1 \<rparr>)"
      have e1: "o1\<lparr> nargs := None \<rparr> = option\<lparr> nargs := None \<rparr>" by (simp add: o1_def)
      from assms Some o False have "snd ds1 = (snd ds)[a := o1]"
        by (auto simp: apply_item_def Let_def o1_def split: sum.splits if_splits)
      with erase_update_same[OF o e1] show ?thesis by simp
    qed
  qed
qed

lemma apply_config_erase:
  "apply_config e p items ds = Inr ds1 \<Longrightarrow> erase_nargs (snd ds1) = erase_nargs (snd ds)"
proof (induction items arbitrary: ds)
  case Nil
  then show ?case by simp
next
  case (Cons kv rest)
  from Cons.prems obtain ds2 where s: "apply_item e p kv ds = Inr ds2"
    and r: "apply_config e p rest ds2 = Inr ds1" by (auto split: sum.splits)
  from Cons.IH[OF r] apply_item_erase[OF s] show ?case by simp
qed

lemma update_defaults_erase:
  "update_defaults e p d st = Inr (d1, st1) \<Longrightarrow> erase_nargs st1 = erase_nargs st"
  using apply_config_erase[of e p "merged_config e p" "(d, st)" "(d1, st1)"]
  by (simp add: update_defaults_def)

lemma get_default_values_erase:
  "get_default_values e p st = Inr (vs, st1) \<Longrightarrow> erase_nargs st1 = erase_nargs st"
  by (auto simp: get_default_values_def dest: update_defaults_erase
        split: if_splits sum.splits prod.splits)

lemma erase_obj:
  assumes "erase_nargs st1 = erase_nargs st"
  shows "map_option (\<lambda>option. option\<lparr> nargs := None \<rparr>) (obj st1 a)
           = map_option (\<lambda>option. option\<lparr> nargs := None \<rparr>) (obj st a)"
proof -
  have l: "length st1 = length st"
    using arg_cong[OF assms, of length] by (simp add: erase_nargs_def)
  show ?thesis
  proof (cases "a < length st")
    case True
    from arg_cong[OF assms, of "\<lambda>xs. xs ! a"] True l
    show ?thesis by (simp add: obj_def erase_nargs_def)
  next
    case False
    with l show ?thesis by (simp add: obj_def)
  qed
qed

lemma erased_eq_fields:
  "o1\<lparr> nargs := None \<rparr> = (o2::opt)\<lparr> nargs := None \<rparr>
     \<Longrightarrow> dest o1 = dest o2 \<and> action o1 = action o2 \<and> otype o1 = otype o2
         \<and> short_opts o1 = short_opts o2 \<and> long_opts o1 = long_opts o2
         \<and> default o1 = default o2 \<and> container o1 = container o2"
  by (cases o1, cases o2) simp

lemma erase_obj_cases:
  assumes "erase_nargs st1 = erase_nargs st"
  shows "(obj st a = None \<and> obj st1 a = None)
       \<or> (\<exists>o1 o2. obj st a = Some o2 \<and> obj st1 a = Some o1
             \<and> dest o1 = dest o2 \<and> action o1 = action o2 \<and> otype o1 = otype o2)"
proof (cases "obj st a")
  case None
  with erase_obj[OF assms, of a] show ?thesis by simp
next
  case (Some o2)
  with erase_obj[OF assms, of a] obtain o1 where o1: "obj st1 a = Some o1"
    and e: "o1\<lparr> nargs := None \<rparr> = o2\<lparr> nargs := None \<rparr>" by auto
  from erased_eq_fields[OF e] Some o1 show ?thesis by simp
qed

lemma erase_writes:
  assumes "erase_nargs st1 = erase_nargs st"
  shows "writes p st1 d oc = writes p st d oc"
proof -
  obtain s args where oc: "oc = Occ s args" by (cases oc)
  show ?thesis
  proof (cases "get_option p s")
    case None
    with oc show ?thesis by (simp add: writes_def occ_option_def)
  next
    case (Some a)
    from erase_obj_cases[OF assms, of a] show ?thesis
      by (elim disjE exE conjE) (simp_all add: writes_def occ_option_def oc Some)
  qed
qed

lemma erase_counts:
  assumes "erase_nargs st1 = erase_nargs st"
  shows "counts p st1 d oc = counts p st d oc"
proof -
  obtain s args where oc: "oc = Occ s args" by (cases oc)
  show ?thesis
  proof (cases "get_option p s")
    case None
    with oc show ?thesis by (simp add: counts_def occ_option_def)
  next
    case (Some a)
    from erase_obj_cases[OF assms, of a] show ?thesis
      by (elim disjE exE conjE) (simp_all add: counts_def occ_option_def oc Some)
  qed
qed

lemma parse_args_inv:
  assumes "parse_args e p st cli = Inr (vs, st1)"
  shows "\<exists>dv. get_default_values e p st = Inr (dv, st1) \<and> process_all e p st1 cli dv = Inr vs"
  using assms by (auto simp: parse_args_def split: sum.splits prod.splits)

text \<open>
  C3. The global scope is parsed by the main parser and the command scope by the
  command's parser, each from its resolved defaults; \<^verbatim>\<open>merge_options\<close> then adds
  the global counter to the command counter. For \<open>verbose\<close> and for \<open>quiet\<close>, when
  the flags that write the counter are counting flags, the merged counter is the sum
  of the two scopes' counters, each being its default plus the number of its flags on
  the command line, wherever they stand among the other options.
\<close>

theorem counters_additive:
  assumes "get_default_values e gp gst = Inr (gd, gst1)"
    and "parse_args e gp gst gcli = Inr (initial_options, gst1)"
    and "get_default_values e cp cst = Inr (cd, cst1)"
    and "parse_args e cp cst ccli = Inr (options, cst1)"
    and "merge_options initial_options options = Inr merged"
    and "counter = ''verbose'' \<or> counter = ''quiet''"
    and "gd counter = Some (PInt g0)"
    and "cd counter = Some (PInt c0)"
    and "\<forall>oc \<in> set gcli. writes gp gst counter oc \<longrightarrow> counts gp gst counter oc"
    and "\<forall>oc \<in> set ccli. writes cp cst counter oc \<longrightarrow> counts cp cst counter oc"
  shows "merged counter =
           Some (PInt ((c0 + int (length (filter (writes cp cst counter) ccli)))
                       + (g0 + int (length (filter (writes gp gst counter) gcli)))))"
proof -
  have eg: "erase_nargs gst1 = erase_nargs gst"
    by (rule get_default_values_erase[OF assms(1)])
  have ec: "erase_nargs cst1 = erase_nargs cst"
    by (rule get_default_values_erase[OF assms(3)])
  from parse_args_inv[OF assms(2)] assms(1)
  have pg: "process_all e gp gst1 gcli gd = Inr initial_options" by auto
  from parse_args_inv[OF assms(4)] assms(3)
  have pc: "process_all e cp cst1 ccli cd = Inr options" by auto
  have wg: "writes gp gst1 counter = writes gp gst counter"
    by (rule ext) (rule erase_writes[OF eg])
  have wc: "writes cp cst1 counter = writes cp cst counter"
    by (rule ext) (rule erase_writes[OF ec])
  from assms(9) have hg: "\<forall>oc \<in> set gcli. writes gp gst1 counter oc \<longrightarrow> counts gp gst1 counter oc"
    by (simp add: erase_writes[OF eg] erase_counts[OF eg])
  from assms(10) have hc: "\<forall>oc \<in> set ccli. writes cp cst1 counter oc \<longrightarrow> counts cp cst1 counter oc"
    by (simp add: erase_writes[OF ec] erase_counts[OF ec])
  from process_all_count[OF pg assms(7) hg] wg
  have iv: "initial_options counter
              = Some (PInt (g0 + int (length (filter (writes gp gst counter) gcli))))"
    by simp
  from process_all_count[OF pc assms(8) hc] wc
  have ov: "options counter
              = Some (PInt (c0 + int (length (filter (writes cp cst counter) ccli))))"
    by simp
  from assms(5) obtain o1 o2 where
    s1: "merge_attrs carry_over initial_options options = Inr o1" and
    s2: "add_from ''quiet'' initial_options o1 = Inr o2" and
    s3: "add_from ''verbose'' initial_options o2 = Inr merged"
    by (auto simp: merge_options_def split: sum.splits)
  from assms(6) have nc: "counter \<notin> set carry_over" by (auto simp: carry_over_def)
  from merge_attrs_other[OF s1 nc] ov
  have o1v: "o1 counter = Some (PInt (c0 + int (length (filter (writes cp cst counter) ccli))))"
    by simp
  from assms(6) show ?thesis
  proof
    assume v: "counter = ''verbose''"
    then have ne: "counter \<noteq> ''quiet''" by simp
    from add_from_other[OF s2 ne] o1v
    have "o2 counter = Some (PInt (c0 + int (length (filter (writes cp cst counter) ccli))))"
      by simp
    from add_from_value[OF s3[folded v] this iv] show ?thesis by simp
  next
    assume q: "counter = ''quiet''"
    then have ne: "counter \<noteq> ''verbose''" by simp
    from add_from_value[OF s2[folded q] o1v iv]
    have "o2 counter = Some (PInt ((c0 + int (length (filter (writes cp cst counter) ccli)))
                       + (g0 + int (length (filter (writes gp gst counter) gcli)))))"
      by simp
    with add_from_other[OF s3 ne] show ?thesis by simp
  qed
qed

theorem counters_additive_witness:
  "(case parse_args env_empty (fst built_main) (snd built_main)
           [Occ ''-v'' [], Occ ''--proxy'' [''host''], Occ ''--verbose'' []] of
      Inl er \<Rightarrow> None
    | Inr (io, s1) \<Rightarrow>
        (case parse_args env_empty (fst (built_install Map.empty))
                (snd (built_install Map.empty)) [Occ ''-v'' []] of
           Inl er \<Rightarrow> None
         | Inr (co, s2) \<Rightarrow>
             (case merge_options io co of Inl er \<Rightarrow> None | Inr m \<Rightarrow> m ''verbose'')))
     = Some (PInt 3)"
proof -
  define gp where "gp = fst built_main"
  define gst where "gst = snd built_main"
  define cp where "cp = fst (built_install Map.empty)"
  define cst where "cst = snd (built_install Map.empty)"
  define gcli where "gcli = [Occ ''-v'' [], Occ ''--proxy'' [''host''], Occ ''--verbose'' []]"
  define ccli where "ccli = [Occ ''-v'' []]"
  note defs = gp_def gst_def cp_def cst_def gcli_def ccli_def
  have run: "(case parse_args env_empty gp gst gcli of
      Inl er \<Rightarrow> False
    | Inr (io, s1) \<Rightarrow>
        (case parse_args env_empty cp cst ccli of
           Inl er \<Rightarrow> False
         | Inr (co, s2) \<Rightarrow>
             (case merge_options io co of Inl er \<Rightarrow> False | Inr m \<Rightarrow> True)))"
    unfolding defs by code_simp
  then obtain io s1 co s2 m where
    pg: "parse_args env_empty gp gst gcli = Inr (io, s1)" and
    pc: "parse_args env_empty cp cst ccli = Inr (co, s2)" and
    mo: "merge_options io co = Inr m"
    by (auto split: sum.splits prod.splits)
  from parse_args_inv[OF pg] obtain gd where
    dg: "get_default_values env_empty gp gst = Inr (gd, s1)" by blast
  from parse_args_inv[OF pc] obtain cd where
    dc: "get_default_values env_empty cp cst = Inr (cd, s2)" by blast
  have "(case get_default_values env_empty gp gst of
           Inl er \<Rightarrow> None | Inr (vs, s) \<Rightarrow> vs ''verbose'') = Some (PInt 0)"
    unfolding defs by code_simp
  with dg have g0: "gd ''verbose'' = Some (PInt 0)" by simp
  have "(case get_default_values env_empty cp cst of
           Inl er \<Rightarrow> None | Inr (vs, s) \<Rightarrow> vs ''verbose'') = Some (PInt 0)"
    unfolding defs by code_simp
  with dc have c0: "cd ''verbose'' = Some (PInt 0)" by simp
  have "list_all (\<lambda>oc. writes gp gst ''verbose'' oc \<longrightarrow> counts gp gst ''verbose'' oc) gcli"
    unfolding defs by code_simp
  then have hg: "\<forall>oc \<in> set gcli. writes gp gst ''verbose'' oc \<longrightarrow> counts gp gst ''verbose'' oc"
    by (simp add: list_all_iff)
  have "list_all (\<lambda>oc. writes cp cst ''verbose'' oc \<longrightarrow> counts cp cst ''verbose'' oc) ccli"
    unfolding defs by code_simp
  then have hc: "\<forall>oc \<in> set ccli. writes cp cst ''verbose'' oc \<longrightarrow> counts cp cst ''verbose'' oc"
    by (simp add: list_all_iff)
  have ng: "length (filter (writes gp gst ''verbose'') gcli) = 2"
    unfolding defs by code_simp
  have nc: "length (filter (writes cp cst ''verbose'') ccli) = 1"
    unfolding defs by code_simp
  have "m ''verbose'' = Some (PInt 3)"
    using counters_additive[OF dg pg dc pc mo _ g0 c0 hg hc] ng nc by simp
  with pg pc mo show ?thesis unfolding defs by simp
qed

lemma nargs_set_refl: "nargs_set st st"
  by (simp add: nargs_set_def)

lemma nargs_set_trans: "nargs_set a b \<Longrightarrow> nargs_set b c \<Longrightarrow> nargs_set a c"
  unfolding nargs_set_def by (fastforce)

lemma nargs_set_obj:
  assumes "nargs_set st st1"
  shows "(obj st a = None \<and> obj st1 a = None)
       \<or> (\<exists>o2. obj st a = Some o2
             \<and> (obj st1 a = Some o2
                 \<or> (action o2 \<noteq> Append \<and> obj st1 a = Some (o2\<lparr> nargs := Some 1 \<rparr>))))"
  using assms by (auto simp: nargs_set_def obj_def)

lemma nargs_set_update:
  assumes "nargs_set st st1"
  shows "nargs_set (st[a := x]) (st1[a := x])"
proof (cases "a < length st")
  case True
  with assms show ?thesis by (auto simp: nargs_set_def nth_list_update)
next
  case False
  with assms show ?thesis by (simp add: nargs_set_def)
qed

lemma apply_item_nargs_set:
  assumes "apply_item e p kv ds = Inr ds1"
  shows "nargs_set (snd ds) (snd ds1)"
proof (cases "get_option p (fst kv)")
  case None
  with assms show ?thesis by (simp add: apply_item_def nargs_set_refl)
next
  case (Some a)
  show ?thesis
  proof (cases "obj (snd ds) a")
    case None
    with Some assms show ?thesis by (simp add: apply_item_def)
  next
    case o: (Some option)
    then have a: "a < length (snd ds)" and oa: "snd ds ! a = option"
      by (auto simp: obj_def split: if_splits)
    show ?thesis
    proof (cases "snd kv = []")
      case True
      with Some o assms show ?thesis by (simp add: apply_item_def nargs_set_refl)
    next
      case False
      define o1 where "o1 = (if action option = Append then option else option\<lparr> nargs := Some 1 \<rparr>)"
      from assms Some o False have s: "snd ds1 = (snd ds)[a := o1]"
        by (auto simp: apply_item_def Let_def o1_def split: sum.splits if_splits)
      show ?thesis unfolding s nargs_set_def using a oa
        by (auto simp: nth_list_update o1_def)
    qed
  qed
qed

lemma apply_config_nargs_set:
  "apply_config e p items ds = Inr ds1 \<Longrightarrow> nargs_set (snd ds) (snd ds1)"
proof (induction items arbitrary: ds)
  case Nil
  then show ?case by (simp add: nargs_set_refl)
next
  case (Cons kv rest)
  from Cons.prems obtain ds2 where s: "apply_item e p kv ds = Inr ds2"
    and r: "apply_config e p rest ds2 = Inr ds1" by (auto split: sum.splits)
  from nargs_set_trans[OF apply_item_nargs_set[OF s] Cons.IH[OF r]] show ?case .
qed

text \<open>The outcome of one round does not depend on the nargs attributes that differ.\<close>

lemma apply_item_sim:
  assumes "nargs_set st st'"
  shows "case apply_item e p kv (d, st) of
           Inl er \<Rightarrow> apply_item e p kv (d, st') = Inl er
         | Inr ds1 \<Rightarrow> \<exists>s1'. apply_item e p kv (d, st') = Inr (fst ds1, s1')
                          \<and> nargs_set (snd ds1) s1'"
proof (cases "get_option p (fst kv)")
  case None
  with assms show ?thesis by (simp add: apply_item_def)
next
  case (Some a)
  from nargs_set_obj[OF assms, of a] show ?thesis
  proof (elim disjE conjE exE)
    assume "obj st a = None" "obj st' a = None"
    with Some show ?thesis by (simp add: apply_item_def)
  next
    fix o2 assume o: "obj st a = Some o2" and o': "obj st' a = Some o2"
    have "nargs_set (st[a := x]) (st'[a := x])" for x
      by (rule nargs_set_update[OF assms])
    with Some o o' assms show ?thesis
      by (auto simp: apply_item_def Let_def split: sum.splits)
  next
    fix o2 assume o: "obj st a = Some o2" and na: "action o2 \<noteq> Append"
      and o': "obj st' a = Some (o2\<lparr> nargs := Some 1 \<rparr>)"
    have "nargs_set (st[a := x]) (st'[a := x])" for x
      by (rule nargs_set_update[OF assms])
    with Some o o' na assms show ?thesis
      by (auto simp: apply_item_def Let_def split: sum.splits)
  qed
qed

lemma apply_config_sim:
  assumes "nargs_set st st'"
  shows "case apply_config e p items (d, st) of
           Inl er \<Rightarrow> apply_config e p items (d, st') = Inl er
         | Inr ds1 \<Rightarrow> \<exists>s1'. apply_config e p items (d, st') = Inr (fst ds1, s1')
                          \<and> nargs_set (snd ds1) s1'"
  using assms
proof (induction items arbitrary: d st st')
  case Nil
  then show ?case by simp
next
  case (Cons kv rest)
  show ?case
  proof (cases "apply_item e p kv (d, st)")
    case (Inl er)
    with apply_item_sim[OF Cons.prems, of e p kv d] show ?thesis by simp
  next
    case (Inr ds1)
    with apply_item_sim[OF Cons.prems, of e p kv d] obtain s1' where
      s: "apply_item e p kv (d, st') = Inr (fst ds1, s1')" and n: "nargs_set (snd ds1) s1'"
      by auto
    from Cons.IH[OF n, of "fst ds1"] Inr s show ?thesis by (auto split: sum.splits)
  qed
qed

lemma check_string_defaults_sim:
  assumes "nargs_set st st'"
  shows "check_string_defaults e st' as d = check_string_defaults e st as d"
proof (induction as arbitrary: d)
  case Nil
  then show ?case by simp
next
  case (Cons a rest)
  from nargs_set_obj[OF assms, of a] show ?case
  proof (elim disjE conjE exE)
    assume "obj st a = None" "obj st' a = None"
    then show ?thesis by simp
  next
    fix o2 assume "obj st a = Some o2" "obj st' a = Some o2"
    then show ?thesis
      by (simp add: Cons.IH fun_upd_def cong: option.case_cong pyval.case_cong sum.case_cong)
  next
    fix o2 assume "obj st a = Some o2" "action o2 \<noteq> Append"
      "obj st' a = Some (o2\<lparr> nargs := Some 1 \<rparr>)"
    then show ?thesis
      by (simp add: Cons.IH check_value_def fun_upd_def
            cong: option.case_cong pyval.case_cong sum.case_cong)
  qed
qed

lemma get_default_values_sim:
  assumes "nargs_set st st'"
  shows "map_sum id fst (get_default_values e p st') = map_sum id fst (get_default_values e p st)"
proof (cases "process_default_values p")
  case False
  then show ?thesis by (simp add: get_default_values_def split: sum.splits)
next
  case True
  show ?thesis
  proof (cases "apply_config e p (merged_config e p) (defaults p, st)")
    case (Inl er)
    with apply_config_sim[OF assms, of e p "merged_config e p" "defaults p"] True
    show ?thesis by (simp add: get_default_values_def update_defaults_def)
  next
    case (Inr ds1)
    with apply_config_sim[OF assms, of e p "merged_config e p" "defaults p"] obtain s1' where
      s: "apply_config e p (merged_config e p) (defaults p, st') = Inr (fst ds1, s1')"
      and n: "nargs_set (snd ds1) s1'" by auto
    from check_string_defaults_sim[OF n] Inr s True show ?thesis
      by (cases ds1) (simp add: get_default_values_def update_defaults_def split: sum.splits)
  qed
qed

lemma register_option_fresh:
  assumes "register_option cid (length st) p (st @ [option]) = Inr (p1, st1)"
  shows "st1 = st @ [option\<lparr> container := Some cid \<rparr>]"
  using assms by (auto simp: register_option_def obj_def split: if_splits)

lemma parser_add_new_keeps:
  "parser_add_new os (p, st) = Inr (p1, st1) \<Longrightarrow> take (length st) st1 = st"
proof (induction os arbitrary: p st)
  case Nil
  then show ?case by simp
next
  case (Cons option rest)
  from Cons.prems obtain p2 st2 where
    s: "parser_add_option (length st) (p, st @ [option]) = Inr (p2, st2)" and
    r: "parser_add_new rest (p2, st2) = Inr (p1, st1)"
    by (auto split: sum.splits)
  from s obtain p3 where
    "register_option (ParserC (pname p)) (length st) p (st @ [option]) = Inr (p3, st2)"
    by (auto simp: parser_add_option_def split: sum.splits)
  from register_option_fresh[OF this] have st2: "st2 = st @ [option\<lparr> container := Some (ParserC (pname p)) \<rparr>]" .
  from Cons.IH[OF r] have "take (length st2) st1 = st2" .
  then have "take (length st) (take (length st2) st1) = take (length st) st2" by simp
  with st2 show ?case by (simp add: min_def)
qed

lemma group_add_new_keeps:
  "group_add_new os (g, p, st) = Inr (g1, p1, st1) \<Longrightarrow> take (length st) st1 = st"
proof (induction os arbitrary: g p st)
  case Nil
  then show ?case by simp
next
  case (Cons option rest)
  from Cons.prems obtain g2 p2 st2 where
    s: "group_add_option (length st) (g, p, st @ [option]) = Inr (g2, p2, st2)" and
    r: "group_add_new rest (g2, p2, st2) = Inr (g1, p1, st1)"
    by (auto split: sum.splits)
  from s obtain p3 cid where
    "register_option cid (length st) p (st @ [option]) = Inr (p3, st2)"
    by (cases g) (auto simp: group_add_option_def split: sum.splits)
  from register_option_fresh[OF this] obtain o2 where st2: "st2 = st @ [o2]" by blast
  from Cons.IH[OF r] have "take (length st2) st1 = st2" .
  then have "take (length st) (take (length st2) st1) = take (length st) st2" by simp
  with st2 show ?case by (simp add: min_def)
qed

lemma register_option_container:
  assumes "register_option cid a p st = Inr (p1, st1)"
  shows "erase_container st1 = erase_container st"
proof -
  from assms obtain option where o: "obj st a = Some option"
    and s: "st1 = st[a := option\<lparr> container := Some cid \<rparr>]"
    by (auto simp: register_option_def split: option.splits if_splits)
  from o have a: "a < length st" and oa: "st ! a = option"
    by (auto simp: obj_def split: if_splits)
  have "erase_container st1 = (erase_container st)[a := (erase_container st) ! a]"
    using a oa by (simp add: s erase_container_def map_update)
  then show ?thesis by simp
qed

lemma copy_options_parser_container:
  "copy_options_parser as ps = Inr ps1 \<Longrightarrow> erase_container (snd ps1) = erase_container (snd ps)"
proof (induction as arbitrary: ps)
  case Nil
  then show ?case by simp
next
  case (Cons a rest)
  from Cons.prems obtain option where o: "obj (snd ps) a = Some option"
    by (auto split: option.splits)
  show ?case
  proof (cases "skipped option")
    case True
    with Cons o show ?thesis by simp
  next
    case False
    with Cons.prems o obtain ps2 where s: "parser_add_option a ps = Inr ps2"
      and r: "copy_options_parser rest ps2 = Inr ps1" by (auto split: sum.splits)
    from s have "erase_container (snd ps2) = erase_container (snd ps)"
      by (auto simp: parser_add_option_def dest: register_option_container split: sum.splits)
    with Cons.IH[OF r] show ?thesis by simp
  qed
qed

lemma copy_options_group_container:
  "copy_options_group as gps = Inr gps1
     \<Longrightarrow> erase_container (snd (snd gps1)) = erase_container (snd (snd gps))"
proof (induction as arbitrary: gps)
  case Nil
  then show ?case by simp
next
  case (Cons a rest)
  from Cons.prems obtain option where o: "obj (snd (snd gps)) a = Some option"
    by (auto split: option.splits)
  show ?case
  proof (cases "skipped option")
    case True
    with Cons o show ?thesis by simp
  next
    case False
    with Cons.prems o obtain gps2 where s: "group_add_option a gps = Inr gps2"
      and r: "copy_options_group rest gps2 = Inr gps1" by (auto split: sum.splits)
    from s have "erase_container (snd (snd gps2)) = erase_container (snd (snd gps))"
      by (auto simp: group_add_option_def dest: register_option_container
            split: sum.splits prod.splits)
    with Cons.IH[OF r] show ?thesis by simp
  qed
qed

lemma copy_option_groups_container:
  "copy_option_groups gs ps = Inr ps1 \<Longrightarrow> erase_container (snd ps1) = erase_container (snd ps)"
proof (induction gs arbitrary: ps)
  case Nil
  then show ?case by simp
next
  case (Cons g rest)
  from Cons.prems obtain ps2 where s: "copy_option_group g ps = Inr ps2"
    and r: "copy_option_groups rest ps2 = Inr ps1" by (auto split: sum.splits)
  from s have "erase_container (snd ps2) = erase_container (snd ps)"
    by (auto simp: copy_option_group_def dest: copy_options_group_container
          split: sum.splits prod.splits)
  with Cons.IH[OF r] show ?case by simp
qed

lemma command_init_container:
  assumes "command_init nm cfg gp st = Inr (cp, st1)"
  shows "erase_container st1 = erase_container st"
proof -
  from assms obtain ps where
    g: "copy_option_groups (option_groups gp) (new_parser nm cfg, st) = Inr ps" and
    o: "copy_options_parser (option_list gp) ps = Inr (cp, st1)"
    by (auto simp: command_init_def split: if_splits sum.splits)
  from copy_option_groups_container[OF g] copy_options_parser_container[OF o]
  show ?thesis by simp
qed

text \<open>
  C6 (as amended). Each parser owns its containers: the option list, the groups, the
  option-string dictionaries and the defaults are fields of the parser value, and no
  operation on a command's parser takes the main parser or a sibling as argument.
  What parsers share are the Option objects in the store. Building a command's
  parser changes, of the objects that existed, the back pointers \<^verbatim>\<open>container\<close>
  only. Adding new options to the command's parser, or to a group of it, leaves every
  object that existed as it was. Resolving the command parser's defaults from the
  configuration and the environment changes no attribute other than \<^verbatim>\<open>nargs\<close>
  (set to 1 on options that are not of the append kind), and the default values
  that any parser resolves afterwards are the ones it would have resolved before.
\<close>

theorem command_parser_isolation:
  assumes "command_init nm cfg gp st = Inr (cp, st1)"
  shows "erase_container st1 = erase_container st
       \<and> (parser_add_new os (cp, st1) = Inr (cp2, st2) \<longrightarrow> take (length st1) st2 = st1)
       \<and> (group_add_new os (g, cp, st1) = Inr (g3, cp3, st3)
            \<longrightarrow> take (length st1) st3 = st1)
       \<and> (update_defaults e cp d st1 = Inr (d4, st4)
            \<longrightarrow> nargs_set st1 st4
              \<and> (\<forall>q. map_sum id fst (get_default_values e q st4)
                       = map_sum id fst (get_default_values e q st1)))"
proof (intro conjI impI allI)
  show "erase_container st1 = erase_container st"
    by (rule command_init_container[OF assms])
next
  assume "parser_add_new os (cp, st1) = Inr (cp2, st2)"
  then show "take (length st1) st2 = st1" by (rule parser_add_new_keeps)
next
  assume "group_add_new os (g, cp, st1) = Inr (g3, cp3, st3)"
  then show "take (length st1) st3 = st1" by (rule group_add_new_keeps)
next
  assume u: "update_defaults e cp d st1 = Inr (d4, st4)"
  then show n: "nargs_set st1 st4"
    using apply_config_nargs_set[of e cp "merged_config e cp" "(d, st1)" "(d4, st4)"]
    by (simp add: update_defaults_def)
  fix q
  from get_default_values_sim[OF n]
  show "map_sum id fst (get_default_values e q st4)
          = map_sum id fst (get_default_values e q st1)" .
qed

theorem command_parser_isolation_witness:
  "erase_container (snd (built_install config_install_verbose))
     = erase_container (snd built_main)
   \<and> (case parser_add_new [upgrade_option] (built_install config_install_verbose) of
         Inl er \<Rightarrow> False
       | Inr (cp2, st2) \<Rightarrow>
           take (length (snd (built_install config_install_verbose))) st2
             = snd (built_install config_install_verbose))
   \<and> (case update_defaults env_empty (fst (built_install config_install_verbose))
              (defaults (fst (built_install config_install_verbose)))
              (snd (built_install config_install_verbose)) of
         Inl er \<Rightarrow> False
       | Inr (d4, st4) \<Rightarrow>
           nargs_set (snd (built_install config_install_verbose)) st4
           \<and> map_sum id fst (get_default_values env_empty (fst built_main) st4)
               = map_sum id fst (get_default_values env_empty (fst built_main)
                                   (snd (built_install config_install_verbose))))"
proof -
  define bi where "bi = built_install config_install_verbose"
  have "case command_init ''install'' config_install_verbose (fst built_main)
               (snd built_main) of Inl er \<Rightarrow> False | Inr ps \<Rightarrow> True"
    by code_simp
  then have ci: "command_init ''install'' config_install_verbose (fst built_main)
                   (snd built_main) = Inr (fst bi, snd bi)"
    by (auto simp: bi_def built_install_def split: sum.splits)
  have "case parser_add_new [upgrade_option] (built_install config_install_verbose) of
          Inl er \<Rightarrow> False | Inr ps \<Rightarrow> True"
    by code_simp
  then obtain cp2 st2 where a: "parser_add_new [upgrade_option] (fst bi, snd bi) = Inr (cp2, st2)"
    by (auto simp: bi_def split: sum.splits)
  have "case update_defaults env_empty (fst (built_install config_install_verbose))
               (defaults (fst (built_install config_install_verbose)))
               (snd (built_install config_install_verbose)) of
          Inl er \<Rightarrow> False | Inr ps \<Rightarrow> True"
    by code_simp
  then obtain d4 st4 where
    u: "update_defaults env_empty (fst bi) (defaults (fst bi)) (snd bi) = Inr (d4, st4)"
    by (auto simp: bi_def split: sum.splits)
  from command_parser_isolation[OF ci, of "[upgrade_option]" cp2 st2 _ _ _ _ env_empty
      "defaults (fst bi)" d4 st4] a u
  show ?thesis unfolding bi_def[symmetric] by simp
qed

text \<open>
  C6 as stated fails: the Option object \<^verbatim>\<open>--verbose\<close> of the main parser is the
  one the parser of \<^verbatim>\<open>install\<close> holds. With \<^verbatim>\<open>verbose = 1\<close> in the section
  \<^verbatim>\<open>install\<close> of the configuration file, resolving the defaults of the command's
  parser sets \<^verbatim>\<open>nargs = 1\<close> on that object, which had none: the option of the main
  parser has changed.
\<close>

theorem shared_option_nargs_changed:
  "get_option (fst built_main) ''--verbose'' = Some 2
   \<and> get_option (fst (built_install config_install_verbose)) ''--verbose'' = Some 2
   \<and> map_option nargs (obj (snd (built_install config_install_verbose)) 2) = Some None
   \<and> (case update_defaults env_empty (fst (built_install config_install_verbose))
              (defaults (fst (built_install config_install_verbose)))
              (snd (built_install config_install_verbose)) of
         Inl er \<Rightarrow> None
       | Inr (d, st) \<Rightarrow> map_option nargs (obj st 2)) = Some (Some 1)"
  by code_simp






















text \<open>The values used in the examples of \<^verbatim>\<open>merge_options\<close> and \<^verbatim>\<open>main\<close> are
  the ones the main parser resolves when nothing is configured.\<close>

lemma main_defaults_resolved:
  "(case get_default_values env_empty (fst built_main) (snd built_main) of
      Inl er \<Rightarrow> []
    | Inr (vs, s) \<Rightarrow>
        map vs [''help'', ''version'', ''verbose'', ''quiet'', ''log'', ''proxy'', ''timeout'',
                ''log_explicit_levels'', ''require_venv'', ''log_file'', ''no_input'',
                ''default_vcs'', ''skip_requirements_regex'', ''upgrade''])
     = map (main_defaults ''/pip.log'')
         [''help'', ''version'', ''verbose'', ''quiet'', ''log'', ''proxy'', ''timeout'',
          ''log_explicit_levels'', ''require_venv'', ''log_file'', ''no_input'',
          ''default_vcs'', ''skip_requirements_regex'', ''upgrade'']"
  by code_simp

end
